theory Spec2Isabelle
  imports Main
begin

section \<open>Values, tables and the world the pipeline runs in\<close>

text \<open>
  The two source files, \<^verbatim>\<open>lab-m1w1.py\<close> and \<^verbatim>\<open>solutions.py\<close>, each define
  \<^verbatim>\<open>extract_data\<close>, \<^verbatim>\<open>load_data\<close>, \<^verbatim>\<open>transform_data\<close> and \<^verbatim>\<open>main\<close>. They work on
  a DuckDB database file with three tables, on Parquet files in the working directory
  and on one HTTP API. The model makes all three explicit:
  \<^item> a table is the list of its rows, and \<open>None\<close> while the table does not exist;
    a column value is an \<open>option\<close>, \<open>None\<close> being SQL's NULL;
  \<^item> a Parquet file is the list of its rows, found by its path;
  \<^item> the API is a function from the request's \<open>limit\<close> and \<open>offset\<close> to its response,
    and every request sent is logged in the world.
  Python integers are unbounded (\<open>int\<close>); a DuckDB \<^verbatim>\<open>INTEGER\<close> column holds 32 bits
  and a value outside that range is refused with a conversion error, never wrapped.
  Every function returns the exception raised, if any, together with the world as the
  statements that ran before the exception left it (DuckDB commits each statement).
  Console output is not modelled.
\<close>

datatype error =
    RequestException    \<comment> \<open>\<^verbatim>\<open>requests.exceptions.RequestException\<close>, re-raised by \<^verbatim>\<open>extract_data\<close>\<close>
  | CatalogException    \<comment> \<open>DuckDB: the table does not exist\<close>
  | IOException         \<comment> \<open>DuckDB: \<^verbatim>\<open>read_parquet\<close> finds no file\<close>
  | ConversionException \<comment> \<open>DuckDB: a value cannot be cast to \<^verbatim>\<open>INTEGER\<close>\<close>
  | InvalidInputException \<comment> \<open>DuckDB: \<^verbatim>\<open>from_df\<close> on a data frame with no column; a parameter
                               that cannot be bound\<close>

text \<open>A row of the API's \<^verbatim>\<open>results\<close> list, and so of the Parquet file: columns name, url.\<close>

record parquet_row =
  src_name :: "string option"
  src_url :: "string option"

text \<open>A row of \<^verbatim>\<open>pokedex (last_id INTEGER, pokemon_id INTEGER, name TEXT, url TEXT)\<close>.\<close>

record pokedex_row =
  row_last_id :: "int option"   \<comment> \<open>column \<^verbatim>\<open>last_id\<close>\<close>
  pokemon_id :: "int option"
  name :: "string option"
  url :: "string option"

text \<open>A row of \<^verbatim>\<open>pokemon_stats\<close>: \<^verbatim>\<open>COUNT(*)\<close>, \<^verbatim>\<open>MIN(pokemon_id)\<close>, \<^verbatim>\<open>MAX(pokemon_id)\<close>;
  the third column is called \<^verbatim>\<open>last_id\<close> in the source.\<close>

record stats_row =
  total_pokemon :: int
  first_id :: "int option"
  stats_last_id :: "int option"

datatype response =
    Failed                       \<comment> \<open>time-out, transport failure or an error status\<close>
  | Results "parquet_row list"   \<comment> \<open>the \<^verbatim>\<open>results\<close> list of the JSON body\<close>

text \<open>A body that is not JSON with a \<^verbatim>\<open>results\<close> list of name and url is outside the model,
  and so is a \<^verbatim>\<open>new_last_id\<close> that is not an integer.\<close>

type_synonym api = "int \<Rightarrow> int \<Rightarrow> response"

record world =
  metadata :: "int option list option"      \<comment> \<open>table \<^verbatim>\<open>metadata (last_id INTEGER)\<close>\<close>
  pokedex :: "pokedex_row list option"
  pokemon_stats :: "stats_row list option"
  files :: "string \<Rightarrow> parquet_row list option"
  requests :: "(int \<times> int) list"          \<comment> \<open>(limit, offset) of each GET sent, oldest first\<close>

definition in_integer :: "int \<Rightarrow> bool" where
  "in_integer i = (- 2147483648 \<le> i \<and> i \<le> 2147483647)"

text \<open>
  A Python integer handed to \<^verbatim>\<open>execute\<close> as a parameter is turned into a DuckDB value before
  the statement runs, whatever the statement would do with it; an integer that does not
  fit 128 bits is refused there with an invalid-input error. One that fits but is outside
  \<^verbatim>\<open>INTEGER\<close> is refused later, with a conversion error, when a row carries it into an
  \<^verbatim>\<open>INTEGER\<close> column.
\<close>

definition bindable :: "int \<Rightarrow> bool" where
  "bindable i = (- (2 ^ 127) \<le> i \<and> i < 2 ^ 127)"

section \<open>Python's \<^verbatim>\<open>str\<close> on integers and \<^verbatim>\<open>str.zfill\<close>\<close>

definition digit_char :: "nat \<Rightarrow> char" where
  "digit_char d = char_of (48 + d)"

definition is_digit :: "char \<Rightarrow> bool" where
  "is_digit c = (48 \<le> (of_char c :: nat) \<and> (of_char c :: nat) \<le> 57)"

definition digit_val :: "char \<Rightarrow> nat" where
  "digit_val c = of_char c - 48"

function str_nat :: "nat \<Rightarrow> string" where
  "str_nat n = (if n < 10 then [digit_char n] else str_nat (n div 10) @ [digit_char (n mod 10)])"
  by pat_completeness auto
termination
  by (relation "measure id") auto

declare str_nat.simps [simp del]

definition str_int :: "int \<Rightarrow> string" where
  "str_int i = (if i < 0 then CHR ''-'' # str_nat (nat (- i)) else str_nat (nat i))"

text \<open>\<^verbatim>\<open>s.zfill(width)\<close>: zeros are put on the left up to \<open>width\<close> characters, after a
  leading sign; a string that is already that long is returned as it is.\<close>

definition zfill :: "nat \<Rightarrow> string \<Rightarrow> string" where
  "zfill width s =
     (if width \<le> length s then s
      else (case s of
              [] \<Rightarrow> replicate width (CHR ''0'')
            | c # cs \<Rightarrow>
                if c = CHR ''+'' \<or> c = CHR ''-''
                then c # replicate (width - length s) (CHR ''0'') @ cs
                else replicate (width - length s) (CHR ''0'') @ s))"

text \<open>The value of a run of decimal digits, most significant first.\<close>

definition nat_of_digits :: "string \<Rightarrow> nat" where
  "nat_of_digits s = foldl (\<lambda>a c. 10 * a + digit_val c) 0 s"

text \<open>Reading a file name's number back; used only to state that names do not collide.\<close>

definition parse_int :: "string \<Rightarrow> int" where
  "parse_int s =
     (case s of
        [] \<Rightarrow> 0
      | c # cs \<Rightarrow> if c = CHR ''-'' then - int (nat_of_digits cs) else int (nat_of_digits s))"

section \<open>DuckDB's \<^verbatim>\<open>regexp_extract(url, '/pokemon/(\\d+)/', 1)\<close> and the cast to \<^verbatim>\<open>INTEGER\<close>\<close>

text \<open>
  \<open>match_here s\<close>: the pattern matches at the very start of \<open>s\<close>; the result is group 1.
  \<^verbatim>\<open>\d+\<close> is greedy and must be followed by \<^verbatim>\<open>/\<close>, which is no digit, so group 1 is the
  whole run of digits after \<^verbatim>\<open>/pokemon/\<close>.
\<close>

definition match_here :: "string \<Rightarrow> string option" where
  "match_here s =
     (if take 9 s = ''/pokemon/'' then
        (let ds = takeWhile is_digit (drop 9 s);
             rest = dropWhile is_digit (drop 9 s)
         in if ds \<noteq> [] \<and> take 1 rest = ''/'' then Some ds else None)
      else None)"

text \<open>The leftmost match wins; with no match the result is the empty string.\<close>

fun regexp_extract :: "string \<Rightarrow> string" where
  "regexp_extract [] = []"
| "regexp_extract (c # cs) =
     (case match_here (c # cs) of Some ds \<Rightarrow> ds | None \<Rightarrow> regexp_extract cs)"

text \<open>
  \<^verbatim>\<open>CAST(... AS INTEGER)\<close> on what \<open>regexp_extract\<close> returns: the empty string and a number
  beyond 32 bits are conversion errors. Only the empty string and runs of digits reach
  the cast (lemma \<open>regexp_extract_digits\<close> below); any other text is refused here.
\<close>

definition cast_integer :: "string \<Rightarrow> error + int" where
  "cast_integer s =
     (if s \<noteq> [] \<and> list_all is_digit s \<and> in_integer (int (nat_of_digits s))
      then Inr (int (nat_of_digits s))
      else Inl ConversionException)"

text \<open>The second column of the \<^verbatim>\<open>SELECT\<close>: NULL in, NULL out.\<close>

definition pokemon_id_of :: "string option \<Rightarrow> error + int option" where
  "pokemon_id_of u =
     (case u of
        None \<Rightarrow> Inr None
      | Some s \<Rightarrow> (case cast_integer (regexp_extract s) of
                    Inl e \<Rightarrow> Inl e
                  | Inr i \<Rightarrow> Inr (Some i)))"

section \<open>The SQL statements\<close>

text \<open>\<^verbatim>\<open>MAX\<close> and \<^verbatim>\<open>MIN\<close> skip NULLs and are NULL when nothing else is left.\<close>

fun sql_max :: "int option list \<Rightarrow> int option" where
  "sql_max [] = None"
| "sql_max (None # xs) = sql_max xs"
| "sql_max (Some v # xs) = (case sql_max xs of None \<Rightarrow> Some v | Some m \<Rightarrow> Some (max v m))"

fun sql_min :: "int option list \<Rightarrow> int option" where
  "sql_min [] = None"
| "sql_min (None # xs) = sql_min xs"
| "sql_min (Some v # xs) = (case sql_min xs of None \<Rightarrow> Some v | Some m \<Rightarrow> Some (min v m))"

text \<open>\<^verbatim>\<open>CREATE TABLE IF NOT EXISTS metadata (last_id INTEGER)\<close>\<close>

definition create_metadata :: "world \<Rightarrow> world" where
  "create_metadata w = (case metadata w of None \<Rightarrow> w\<lparr>metadata := Some []\<rparr> | Some rows \<Rightarrow> w)"

text \<open>\<^verbatim>\<open>SELECT COALESCE(MAX(last_id), 0) FROM metadata\<close>\<close>

definition select_checkpoint :: "world \<Rightarrow> error + int" where
  "select_checkpoint w =
     (case metadata w of
        None \<Rightarrow> Inl CatalogException
      | Some rows \<Rightarrow> Inr (case sql_max rows of None \<Rightarrow> 0 | Some m \<Rightarrow> m))"

text \<open>\<^verbatim>\<open>CREATE TABLE IF NOT EXISTS pokedex (...)\<close>\<close>

definition create_pokedex :: "world \<Rightarrow> world" where
  "create_pokedex w = (case pokedex w of None \<Rightarrow> w\<lparr>pokedex := Some []\<rparr> | Some rows \<Rightarrow> w)"

text \<open>One row of \<^verbatim>\<open>SELECT ?, CAST(regexp_extract(url, ...) AS INTEGER), name, url\<close>.
  The parameter, bound before (see \<open>insert_pokedex\<close>), goes into an \<^verbatim>\<open>INTEGER\<close> column.\<close>

definition project_row :: "int \<Rightarrow> parquet_row \<Rightarrow> error + pokedex_row" where
  "project_row new_last_id r =
     (if \<not> in_integer new_last_id then Inl ConversionException
      else (case pokemon_id_of (src_url r) of
              Inl e \<Rightarrow> Inl e
            | Inr pid \<Rightarrow>
                Inr \<lparr>row_last_id = Some new_last_id, pokemon_id = pid,
                     name = src_name r, url = src_url r\<rparr>))"

fun select_rows :: "int \<Rightarrow> parquet_row list \<Rightarrow> error + pokedex_row list" where
  "select_rows new_last_id [] = Inr []"
| "select_rows new_last_id (r # rs) =
     (case project_row new_last_id r of
        Inl e \<Rightarrow> Inl e
      | Inr row \<Rightarrow>
          (case select_rows new_last_id rs of
             Inl e \<Rightarrow> Inl e
           | Inr rows \<Rightarrow> Inr (row # rows)))"

text \<open>
  \<^verbatim>\<open>INSERT INTO pokedex SELECT ... FROM read_parquet(?)\<close>, with the parameters
  \<^verbatim>\<open>[new_last_id, file_path]\<close>: one statement, so either every row of the file is appended
  or none is. The path is looked up as it is written: \<open>files w p\<close> is the file that is
  called \<open>p\<close> in the working directory. That is how \<^verbatim>\<open>read_parquet\<close> reads the names
  \<^verbatim>\<open>extract_data\<close> builds, which have no glob character and no directory part; a path
  that \<^verbatim>\<open>read_parquet\<close> would expand (\<^verbatim>\<open>*.parquet\<close>) or resolve (\<^verbatim>\<open>./a.parquet\<close>) to other
  files is outside the model, and no property below is about such a path.
\<close>

definition insert_pokedex :: "int \<Rightarrow> string \<Rightarrow> world \<Rightarrow> error + world" where
  "insert_pokedex new_last_id file_path w =
     (case pokedex w of
        None \<Rightarrow> Inl CatalogException
      | Some rows \<Rightarrow>
          if \<not> bindable new_last_id then Inl InvalidInputException
          else
            (case files w file_path of
               None \<Rightarrow> Inl IOException
             | Some recs \<Rightarrow>
                 (case select_rows new_last_id recs of
                    Inl e \<Rightarrow> Inl e
                  | Inr new_rows \<Rightarrow> Inr (w\<lparr>pokedex := Some (rows @ new_rows)\<rparr>))))"

text \<open>\<^verbatim>\<open>UPDATE metadata SET last_id = ? WHERE last_id IS NOT NULL\<close>\<close>

definition update_metadata :: "int \<Rightarrow> world \<Rightarrow> error + world" where
  "update_metadata new_last_id w =
     (case metadata w of
        None \<Rightarrow> Inl CatalogException
      | Some rows \<Rightarrow>
          if \<not> bindable new_last_id then Inl InvalidInputException
          else if list_ex (\<lambda>r. r \<noteq> None) rows \<and> \<not> in_integer new_last_id
          then Inl ConversionException
          else Inr (w\<lparr>metadata :=
                 Some (map (\<lambda>r. case r of None \<Rightarrow> None | Some v \<Rightarrow> Some new_last_id) rows)\<rparr>))"

text \<open>\<^verbatim>\<open>SELECT COUNT(*) FROM metadata\<close>\<close>

definition count_metadata :: "world \<Rightarrow> error + int" where
  "count_metadata w =
     (case metadata w of None \<Rightarrow> Inl CatalogException | Some rows \<Rightarrow> Inr (int (length rows)))"

text \<open>\<^verbatim>\<open>INSERT INTO metadata VALUES (?)\<close>\<close>

definition insert_metadata :: "int \<Rightarrow> world \<Rightarrow> error + world" where
  "insert_metadata new_last_id w =
     (case metadata w of
        None \<Rightarrow> Inl CatalogException
      | Some rows \<Rightarrow>
          if \<not> bindable new_last_id then Inl InvalidInputException
          else if \<not> in_integer new_last_id then Inl ConversionException
          else Inr (w\<lparr>metadata := Some (rows @ [Some new_last_id])\<rparr>))"

text \<open>\<^verbatim>\<open>CREATE OR REPLACE TABLE pokemon_stats AS SELECT COUNT(*), MIN(pokemon_id),
  MAX(pokemon_id) FROM pokedex\<close>\<close>

definition replace_pokemon_stats :: "world \<Rightarrow> error + world" where
  "replace_pokemon_stats w =
     (case pokedex w of
        None \<Rightarrow> Inl CatalogException
      | Some rows \<Rightarrow>
          Inr (w\<lparr>pokemon_stats :=
                 Some [\<lparr>total_pokemon = int (length rows),
                        first_id = sql_min (map pokemon_id rows),
                        stats_last_id = sql_max (map pokemon_id rows)\<rparr>]\<rparr>))"

section \<open>\<^verbatim>\<open>lab-m1w1.py\<close>\<close>

text \<open>
  \<^verbatim>\<open>extract_data(limit, last_id)\<close>: create the checkpoint table if it is missing, take the
  offset from it when \<^verbatim>\<open>last_id is None\<close>, send the request, write the page to
  \<^verbatim>\<open>pokedex_<offset>.parquet\<close> (the offset through \<^verbatim>\<open>zfill(3)\<close>) and return the path and
  \<^verbatim>\<open>last_id + limit\<close>. A \<^verbatim>\<open>results\<close> list with no row gives a data frame with no column,
  which \<^verbatim>\<open>duckdb.from_df\<close> refuses.
\<close>

definition lab_extract_data ::
  "api \<Rightarrow> int \<Rightarrow> int option \<Rightarrow> world \<Rightarrow> (error + string \<times> int) \<times> world" where
  "lab_extract_data api limit last_id w =
     (let w1 = create_metadata w in
      case (case last_id of None \<Rightarrow> select_checkpoint w1 | Some i \<Rightarrow> Inr i) of
        Inl e \<Rightarrow> (Inl e, w1)
      | Inr last_id' \<Rightarrow>
          (let w2 = w1\<lparr>requests := requests w1 @ [(limit, last_id')]\<rparr> in
           case api limit last_id' of
             Failed \<Rightarrow> (Inl RequestException, w2)
           | Results [] \<Rightarrow> (Inl InvalidInputException, w2)
           | Results (r # rs) \<Rightarrow>
               (let file_path = ''pokedex_'' @ zfill 3 (str_int last_id') @ ''.parquet'';
                    w3 = w2\<lparr>files := (files w2)(file_path \<mapsto> r # rs)\<rparr>
                in (Inr (file_path, last_id' + limit), w3))))"

text \<open>
  \<^verbatim>\<open>load_data(file_path, new_last_id)\<close>: create the table if it is missing, insert the
  file's rows, update the checkpoint row, and insert one when the table has no row at
  all. The preview query between the two only reads (\<^verbatim>\<open>LIMIT 3\<close>) and is printed.
\<close>

definition lab_load_data :: "string \<Rightarrow> int \<Rightarrow> world \<Rightarrow> (error + unit) \<times> world" where
  "lab_load_data file_path new_last_id w =
     (let w1 = create_pokedex w in
      case insert_pokedex new_last_id file_path w1 of
        Inl e \<Rightarrow> (Inl e, w1)
      | Inr w2 \<Rightarrow>
          (case update_metadata new_last_id w2 of
             Inl e \<Rightarrow> (Inl e, w2)
           | Inr w3 \<Rightarrow>
               (case count_metadata w3 of
                  Inl e \<Rightarrow> (Inl e, w3)
                | Inr n \<Rightarrow>
                    if n = 0 then
                      (case insert_metadata new_last_id w3 of
                         Inl e \<Rightarrow> (Inl e, w3)
                       | Inr w4 \<Rightarrow> (Inr (), w4))
                    else (Inr (), w3))))"

text \<open>\<^verbatim>\<open>transform_data()\<close> has no \<^verbatim>\<open>return\<close> (it is commented out): it returns \<^verbatim>\<open>None\<close>.\<close>

definition lab_transform_data :: "world \<Rightarrow> (error + string option) \<times> world" where
  "lab_transform_data w =
     (case replace_pokemon_stats w of
        Inl e \<Rightarrow> (Inl e, w)
      | Inr w1 \<Rightarrow> (Inr None, w1))"

definition lab_main :: "api \<Rightarrow> world \<Rightarrow> (error + unit) \<times> world" where
  "lab_main api w =
     (case lab_extract_data api 30 None w of
        (Inl e, w1) \<Rightarrow> (Inl e, w1)
      | (Inr (file_path_1, new_last_id_1), w1) \<Rightarrow>
          (case lab_extract_data api 30 (Some new_last_id_1) w1 of
             (Inl e, w2) \<Rightarrow> (Inl e, w2)
           | (Inr (file_path_2, new_last_id_2), w2) \<Rightarrow>
               (case lab_load_data file_path_1 new_last_id_1 w2 of
                  (Inl e, w3) \<Rightarrow> (Inl e, w3)
                | (Inr u1, w3) \<Rightarrow>
                    (case lab_load_data file_path_2 new_last_id_2 w3 of
                       (Inl e, w4) \<Rightarrow> (Inl e, w4)
                     | (Inr u2, w4) \<Rightarrow>
                         (case lab_transform_data w4 of
                            (Inl e, w5) \<Rightarrow> (Inl e, w5)
                          | (Inr t, w5) \<Rightarrow> (Inr (), w5))))))"

section \<open>\<^verbatim>\<open>solutions.py\<close>\<close>

text \<open>The same steps; the request is built from \<^verbatim>\<open>offset = last_id\<close> and the file name
  pads with \<^verbatim>\<open>zfill(10)\<close>.\<close>

definition sol_extract_data ::
  "api \<Rightarrow> int \<Rightarrow> int option \<Rightarrow> world \<Rightarrow> (error + string \<times> int) \<times> world" where
  "sol_extract_data api limit last_id w =
     (let w1 = create_metadata w in
      case (case last_id of None \<Rightarrow> select_checkpoint w1 | Some i \<Rightarrow> Inr i) of
        Inl e \<Rightarrow> (Inl e, w1)
      | Inr last_id' \<Rightarrow>
          (let offset = last_id';
               w2 = w1\<lparr>requests := requests w1 @ [(limit, offset)]\<rparr> in
           case api limit offset of
             Failed \<Rightarrow> (Inl RequestException, w2)
           | Results [] \<Rightarrow> (Inl InvalidInputException, w2)
           | Results (r # rs) \<Rightarrow>
               (let file_path = ''pokedex_'' @ zfill 10 (str_int last_id') @ ''.parquet'';
                    w3 = w2\<lparr>files := (files w2)(file_path \<mapsto> r # rs)\<rparr>
                in (Inr (file_path, last_id' + limit), w3))))"

text \<open>The count is kept in \<^verbatim>\<open>result\<close> before it is tested; the preview reads five rows.\<close>

definition sol_load_data :: "string \<Rightarrow> int \<Rightarrow> world \<Rightarrow> (error + unit) \<times> world" where
  "sol_load_data file_path new_last_id w =
     (let w1 = create_pokedex w in
      case insert_pokedex new_last_id file_path w1 of
        Inl e \<Rightarrow> (Inl e, w1)
      | Inr w2 \<Rightarrow>
          (case update_metadata new_last_id w2 of
             Inl e \<Rightarrow> (Inl e, w2)
           | Inr w3 \<Rightarrow>
               (case count_metadata w3 of
                  Inl e \<Rightarrow> (Inl e, w3)
                | Inr result \<Rightarrow>
                    if result = 0 then
                      (case insert_metadata new_last_id w3 of
                         Inl e \<Rightarrow> (Inl e, w3)
                       | Inr w4 \<Rightarrow> (Inr (), w4))
                    else (Inr (), w3))))"

text \<open>\<^verbatim>\<open>transform_data()\<close> returns the table's name.\<close>

definition sol_transform_data :: "world \<Rightarrow> (error + string option) \<times> world" where
  "sol_transform_data w =
     (case replace_pokemon_stats w of
        Inl e \<Rightarrow> (Inl e, w)
      | Inr w1 \<Rightarrow> (Inr (Some ''pokemon_stats''), w1))"

definition sol_main :: "api \<Rightarrow> world \<Rightarrow> (error + unit) \<times> world" where
  "sol_main api w =
     (case sol_extract_data api 10 None w of
        (Inl e, w1) \<Rightarrow> (Inl e, w1)
      | (Inr (file_path_1, new_last_id_1), w1) \<Rightarrow>
          (case sol_extract_data api 10 (Some new_last_id_1) w1 of
             (Inl e, w2) \<Rightarrow> (Inl e, w2)
           | (Inr (file_path_2, new_last_id_2), w2) \<Rightarrow>
               (case sol_load_data file_path_1 new_last_id_1 w2 of
                  (Inl e, w3) \<Rightarrow> (Inl e, w3)
                | (Inr u1, w3) \<Rightarrow>
                    (case sol_load_data file_path_2 new_last_id_2 w3 of
                       (Inl e, w4) \<Rightarrow> (Inl e, w4)
                     | (Inr u2, w4) \<Rightarrow>
                         (case sol_transform_data w4 of
                            (Inl e, w5) \<Rightarrow> (Inl e, w5)
                          | (Inr t, w5) \<Rightarrow> (Inr (), w5))))))"

section \<open>Either implementation\<close>

datatype impl = Lab | Solutions

fun extract_data ::
  "impl \<Rightarrow> api \<Rightarrow> int \<Rightarrow> int option \<Rightarrow> world \<Rightarrow> (error + string \<times> int) \<times> world" where
  "extract_data Lab = lab_extract_data"
| "extract_data Solutions = sol_extract_data"

fun load_data :: "impl \<Rightarrow> string \<Rightarrow> int \<Rightarrow> world \<Rightarrow> (error + unit) \<times> world" where
  "load_data Lab = lab_load_data"
| "load_data Solutions = sol_load_data"

fun transform_data :: "impl \<Rightarrow> world \<Rightarrow> (error + string option) \<times> world" where
  "transform_data Lab = lab_transform_data"
| "transform_data Solutions = sol_transform_data"

fun main :: "impl \<Rightarrow> api \<Rightarrow> world \<Rightarrow> (error + unit) \<times> world" where
  "main Lab = lab_main"
| "main Solutions = sol_main"

text \<open>The width of \<^verbatim>\<open>zfill\<close> and the driver's \<^verbatim>\<open>limit\<close> in each file.\<close>

fun pad_width :: "impl \<Rightarrow> nat" where
  "pad_width Lab = 3"
| "pad_width Solutions = 10"

fun driver_limit :: "impl \<Rightarrow> int" where
  "driver_limit Lab = 30"
| "driver_limit Solutions = 10"

text \<open>Reading a table that may not exist yet as its rows.\<close>

definition metadata_rows :: "world \<Rightarrow> int option list" where
  "metadata_rows w = (case metadata w of None \<Rightarrow> [] | Some rows \<Rightarrow> rows)"

definition pokedex_rows :: "world \<Rightarrow> pokedex_row list" where
  "pokedex_rows w = (case pokedex w of None \<Rightarrow> [] | Some rows \<Rightarrow> rows)"

text \<open>A database file that has just been created, with no Parquet file beside it.\<close>

definition fresh :: world where
  "fresh = \<lparr>metadata = None, pokedex = None, pokemon_stats = None,
            files = (\<lambda>p. None), requests = []\<rparr>"

section \<open>Notions the properties are stated with\<close>

text \<open>The pattern \<^verbatim>\<open>/pokemon/(\\d+)/\<close> occurs somewhere in the text.\<close>

definition matches :: "string \<Rightarrow> bool" where
  "matches s =
     (\<exists>pre ds post. s = pre @ ''/pokemon/'' @ ds @ ''/'' @ post \<and> ds \<noteq> [] \<and> list_all is_digit ds)"

text \<open>The integer embedded in a locator: group 1 of the leftmost match, read as a decimal
  number; NULL for a NULL locator.\<close>

definition embedded_id :: "string option \<Rightarrow> int option" where
  "embedded_id u =
     (case u of None \<Rightarrow> None | Some s \<Rightarrow> Some (int (nat_of_digits (regexp_extract s))))"

text \<open>A locator the \<^verbatim>\<open>INSERT\<close> accepts: NULL, or text in which the pattern occurs and whose
  number fits an \<^verbatim>\<open>INTEGER\<close>.\<close>

definition locator_ok :: "string option \<Rightarrow> bool" where
  "locator_ok u =
     (case u of
        None \<Rightarrow> True
      | Some s \<Rightarrow> matches s \<and> int (nat_of_digits (regexp_extract s)) \<le> 2147483647)"

text \<open>The row of \<^verbatim>\<open>pokedex\<close> that a row of the file becomes under batch offset \<open>b\<close>.\<close>

definition loaded_row :: "int \<Rightarrow> parquet_row \<Rightarrow> pokedex_row" where
  "loaded_row b r =
     \<lparr>row_last_id = Some b, pokemon_id = embedded_id (src_url r),
      name = src_name r, url = src_url r\<rparr>"

text \<open>The checkpoint table after the \<^verbatim>\<open>UPDATE\<close> and the conditional \<^verbatim>\<open>INSERT\<close> of
  \<^verbatim>\<open>load_data\<close>: NULL rows stay as they are.\<close>

definition overwritten :: "int \<Rightarrow> int option list \<Rightarrow> int option list" where
  "overwritten b mrows =
     (if mrows = [] then [Some b]
      else map (\<lambda>r. case r of None \<Rightarrow> None | Some v \<Rightarrow> Some b) mrows)"

text \<open>No row of the checkpoint table holds NULL.\<close>

definition null_free :: "world \<Rightarrow> bool" where
  "null_free w = list_all (\<lambda>r. r \<noteq> None) (metadata_rows w)"

text \<open>
  The worlds the two files can bring about: any world in which no checkpoint row has been
  written yet (the table is missing or empty), and whatever a call of \<^verbatim>\<open>extract_data\<close>,
  \<^verbatim>\<open>load_data\<close> or \<^verbatim>\<open>transform_data\<close> leaves behind, with any arguments and however the call
  ends. No other code writes to the database.
\<close>

inductive reachable :: "world \<Rightarrow> bool" where
  at_start: "metadata_rows w = [] \<Longrightarrow> reachable w"
| after_extract: "reachable w \<Longrightarrow> reachable (snd (extract_data impl api limit last_id w))"
| after_load: "reachable w \<Longrightarrow> reachable (snd (load_data impl f b w))"
| after_transform: "reachable w \<Longrightarrow> reachable (snd (transform_data impl w))"

text \<open>The values of a column that are not NULL.\<close>

definition present :: "int option list \<Rightarrow> int list" where
  "present xs = concat (map (\<lambda>x. case x of None \<Rightarrow> [] | Some i \<Rightarrow> [i]) xs)"

text \<open>The numeric ids held in rows of \<^verbatim>\<open>pokedex\<close>, and those embedded in the locators of a
  file's rows.\<close>

definition stored_ids :: "pokedex_row list \<Rightarrow> int set" where
  "stored_ids rows = set (present (map pokemon_id rows))"

definition batch_ids :: "parquet_row list \<Rightarrow> int set" where
  "batch_ids rs = set (present (map (\<lambda>r. embedded_id (src_url r)) rs))"

text \<open>Two records of the catalogue, as the API lists them, and a directory that holds
  one file with each.\<close>

definition bulbasaur :: parquet_row where
  "bulbasaur = \<lparr>src_name = Some ''bulbasaur'',
                src_url = Some ''https://pokeapi.co/api/v2/pokemon/1/''\<rparr>"

definition ivysaur :: parquet_row where
  "ivysaur = \<lparr>src_name = Some ''ivysaur'',
              src_url = Some ''https://pokeapi.co/api/v2/pokemon/2/''\<rparr>"

definition two_files :: world where
  "two_files = \<lparr>metadata = Some [], pokedex = None, pokemon_stats = None,
                files = (\<lambda>p. if p = ''a.parquet'' then Some [bulbasaur]
                              else if p = ''b.parquet'' then Some [ivysaur] else None),
                requests = []\<rparr>"

definition loaded_once :: world where
  "loaded_once = snd (load_data Lab ''a.parquet'' 10 two_files)"

definition loaded_twice :: world where
  "loaded_twice = snd (load_data Lab ''b.parquet'' 20 loaded_once)"

text \<open>A file whose only record has a locator that matches the pattern with a number
  beyond 32 bits, a file whose only record has a locator without a number, and a file
  whose only record has no locator at all; the tables exist and are empty.\<close>

definition odd_files :: world where
  "odd_files = \<lparr>metadata = Some [], pokedex = Some [], pokemon_stats = None,
                files = (\<lambda>p. if p = ''big.parquet''
                                then Some [\<lparr>src_name = Some ''big'',
                                   src_url = Some ''https://pokeapi.co/api/v2/pokemon/99999999999/''\<rparr>]
                              else if p = ''bad.parquet''
                                then Some [bulbasaur,
                                           \<lparr>src_name = Some ''bad'',
                                   src_url = Some ''https://pokeapi.co/api/v2/pokemon/''\<rparr>]
                              else if p = ''null.parquet''
                                then Some [\<lparr>src_name = Some ''null'', src_url = None\<rparr>]
                              else None),
                requests = []\<rparr>"

text \<open>What the checkpoint read returns: \<^verbatim>\<open>COALESCE(MAX(last_id), 0)\<close> over the rows of
  \<^verbatim>\<open>metadata\<close>, a table that does not exist yet being created empty first.\<close>

definition checkpoint_value :: "world \<Rightarrow> int" where
  "checkpoint_value w = (case sql_max (metadata_rows w) of None \<Rightarrow> 0 | Some m \<Rightarrow> m)"

text \<open>The offset \<^verbatim>\<open>extract_data\<close> works with: the caller's, or else the checkpoint.\<close>

definition resolved_offset :: "int option \<Rightarrow> world \<Rightarrow> int" where
  "resolved_offset last_id w = (case last_id of None \<Rightarrow> checkpoint_value w | Some i \<Rightarrow> i)"

text \<open>The file name each implementation builds for an offset.\<close>

definition file_name :: "impl \<Rightarrow> int \<Rightarrow> string" where
  "file_name impl off = ''pokedex_'' @ zfill (pad_width impl) (str_int off) @ ''.parquet''"

text \<open>An API with three pages: two records at offset 0, one at offset 10, one at offset 30;
  any other request fails.\<close>

definition metapod :: parquet_row where
  "metapod = \<lparr>src_name = Some ''metapod'',
              src_url = Some ''https://pokeapi.co/api/v2/pokemon/11/''\<rparr>"

definition nidoqueen :: parquet_row where
  "nidoqueen = \<lparr>src_name = Some ''nidoqueen'',
                src_url = Some ''https://pokeapi.co/api/v2/pokemon/31/''\<rparr>"

definition example_api :: api where
  "example_api limit off =
     (if off = 0 then Results [bulbasaur, ivysaur]
      else if off = 10 then Results [metapod]
      else if off = 30 then Results [nidoqueen]
      else Failed)"

section \<open>Facts about the text functions\<close>

lemma of_char_digit_char: "d < 10 \<Longrightarrow> (of_char (digit_char d) :: nat) = 48 + d"
  by (simp add: digit_char_def)

lemma digit_val_digit_char: "d < 10 \<Longrightarrow> digit_val (digit_char d) = d"
  by (simp add: digit_val_def of_char_digit_char)

lemma is_digit_digit_char: "d < 10 \<Longrightarrow> is_digit (digit_char d)"
  by (simp add: is_digit_def of_char_digit_char)

lemma is_digit_not_sign: "is_digit c \<Longrightarrow> c \<noteq> CHR ''-'' \<and> c \<noteq> CHR ''+'' \<and> c \<noteq> CHR ''/''"
  by (auto simp: is_digit_def)

lemma is_digit_zero: "is_digit (CHR ''0'')"
  by (simp add: is_digit_def)

lemma digit_val_zero: "digit_val (CHR ''0'') = 0"
  by (simp add: digit_val_def)

lemma str_nat_digits: "list_all is_digit (str_nat n)"
proof (induction n rule: str_nat.induct)
  case (1 n)
  show ?case
  proof (cases "n < 10")
    case True
    then show ?thesis by (simp add: str_nat.simps [of n] is_digit_digit_char)
  next
    case False
    with 1 show ?thesis by (simp add: str_nat.simps [of n] is_digit_digit_char)
  qed
qed

lemma str_nat_not_Nil: "str_nat n \<noteq> []"
  by (simp add: str_nat.simps [of n])

lemma nat_of_digits_snoc: "nat_of_digits (xs @ [c]) = 10 * nat_of_digits xs + digit_val c"
  by (simp add: nat_of_digits_def)

lemma nat_of_digits_str_nat: "nat_of_digits (str_nat n) = n"
proof (induction n rule: str_nat.induct)
  case (1 n)
  show ?case
  proof (cases "n < 10")
    case True
    then show ?thesis
      by (simp add: str_nat.simps [of n] nat_of_digits_def digit_val_digit_char)
  next
    case False
    with 1 have "nat_of_digits (str_nat (n div 10)) = n div 10" by simp
    with False show ?thesis
      by (simp add: str_nat.simps [of n] nat_of_digits_snoc digit_val_digit_char)
  qed
qed

lemma foldl_digits_zeros:
  "foldl (\<lambda>a c. 10 * a + digit_val c) 0 (replicate k (CHR ''0'') @ s)
     = foldl (\<lambda>a c. 10 * a + digit_val c) 0 s"
  by (induction k) (simp_all add: digit_val_zero)

lemma nat_of_digits_zeros: "nat_of_digits (replicate k (CHR ''0'') @ s) = nat_of_digits s"
  unfolding nat_of_digits_def by (rule foldl_digits_zeros)

lemma length_zfill: "length (zfill w s) = max w (length s)"
  by (auto simp: zfill_def split: list.splits)

lemma parse_int_digits:
  "list_all is_digit s \<Longrightarrow> s \<noteq> [] \<Longrightarrow> parse_int (replicate k (CHR ''0'') @ s) = int (nat_of_digits s)"
proof (cases k)
  case 0
  assume "list_all is_digit s" "s \<noteq> []"
  then obtain c cs where s: "s = c # cs" and "is_digit c" by (cases s) auto
  then have "c \<noteq> CHR ''-''" using is_digit_not_sign by blast
  with 0 s show ?thesis by (simp add: parse_int_def)
next
  case (Suc j)
  have "nat_of_digits (CHR ''0'' # replicate j (CHR ''0'') @ s) = nat_of_digits s"
    using nat_of_digits_zeros [of "Suc j" s] by simp
  with Suc show ?thesis by (simp add: parse_int_def)
qed

lemma parse_int_zfill: "parse_int (zfill w (str_int i)) = i"
proof (cases "i < 0")
  case True
  define n where "n = nat (- i)"
  have s: "str_int i = CHR ''-'' # str_nat n" using True by (simp add: str_int_def n_def)
  have "zfill w (str_int i) = CHR ''-'' # replicate (w - length (str_int i)) (CHR ''0'') @ str_nat n"
    by (simp add: zfill_def s)
  then have "parse_int (zfill w (str_int i)) = - int (nat_of_digits (str_nat n))"
    by (simp add: parse_int_def nat_of_digits_zeros)
  with True show ?thesis by (simp add: nat_of_digits_str_nat n_def)
next
  case False
  define n where "n = nat i"
  have s: "str_int i = str_nat n" using False by (simp add: str_int_def n_def)
  obtain c cs where cs: "str_nat n = c # cs" using str_nat_not_Nil [of n] by (cases "str_nat n") auto
  have "is_digit c" using str_nat_digits [of n] cs by simp
  then have c: "c \<noteq> CHR ''-''" "c \<noteq> CHR ''+''" using is_digit_not_sign by blast+
  have "zfill w (str_int i) = replicate (w - length (str_nat n)) (CHR ''0'') @ str_nat n"
    using c by (simp add: zfill_def s cs)
  then have "parse_int (zfill w (str_int i)) = int (nat_of_digits (str_nat n))"
    using parse_int_digits [OF str_nat_digits str_nat_not_Nil] by simp
  with False show ?thesis by (simp add: nat_of_digits_str_nat n_def)
qed

text \<open>What \<open>regexp_extract\<close> returns is a run of digits that stands in the text between
  \<^verbatim>\<open>/pokemon/\<close> and \<^verbatim>\<open>/\<close>, and it finds such a run whenever there is one.\<close>

lemma match_here_Some:
  assumes "match_here s = Some ds"
  shows "ds \<noteq> [] \<and> list_all is_digit ds \<and> (\<exists>post. s = ''/pokemon/'' @ ds @ ''/'' @ post)"
proof -
  from assms have p: "take 9 s = ''/pokemon/''"
    by (auto simp: match_here_def split: if_splits)
  from assms p have ds: "ds = takeWhile is_digit (drop 9 s)" and ne: "ds \<noteq> []"
    and r: "take 1 (dropWhile is_digit (drop 9 s)) = ''/''"
    by (auto simp: match_here_def Let_def split: if_splits)
  have dig: "list_all is_digit ds"
    unfolding ds list_all_iff by (auto dest: set_takeWhileD)
  have "dropWhile is_digit (drop 9 s) = ''/'' @ drop 1 (dropWhile is_digit (drop 9 s))"
    using r append_take_drop_id [of 1 "dropWhile is_digit (drop 9 s)"] by simp
  then have "drop 9 s = ds @ ''/'' @ drop 1 (dropWhile is_digit (drop 9 s))"
    using takeWhile_dropWhile_id [of is_digit "drop 9 s"] ds by simp
  then have "s = ''/pokemon/'' @ ds @ ''/'' @ drop 1 (dropWhile is_digit (drop 9 s))"
    using p append_take_drop_id [of 9 s] by metis
  with ne dig show ?thesis by blast
qed

lemma match_here_at:
  assumes "ds \<noteq> []" "list_all is_digit ds"
  shows "match_here (''/pokemon/'' @ ds @ ''/'' @ post) = Some ds"
proof -
  have tw: "takeWhile is_digit (ds @ ''/'' @ post) = ds"
    using assms(2) by (simp add: takeWhile_append2 list_all_iff is_digit_def)
  have dw: "dropWhile is_digit (ds @ ''/'' @ post) = ''/'' @ post"
    using assms(2) by (simp add: dropWhile_append2 list_all_iff is_digit_def)
  show ?thesis using assms(1) tw dw by (simp add: match_here_def)
qed

lemma regexp_extract_digits: "list_all is_digit (regexp_extract s)"
  by (induction s) (auto split: option.splits dest: match_here_Some)

lemma regexp_extract_embedded:
  "regexp_extract s \<noteq> [] \<Longrightarrow> \<exists>pre post. s = pre @ ''/pokemon/'' @ regexp_extract s @ ''/'' @ post"
proof (induction s)
  case Nil
  then show ?case by simp
next
  case (Cons c cs)
  show ?case
  proof (cases "match_here (c # cs)")
    case None
    with Cons obtain pre post where "cs = pre @ ''/pokemon/'' @ regexp_extract cs @ ''/'' @ post"
      by auto
    then have "c # cs = (c # pre) @ ''/pokemon/'' @ regexp_extract cs @ ''/'' @ post" by simp
    with None show ?thesis by (metis option.simps(4) regexp_extract.simps(2))
  next
    case (Some ds)
    then obtain post where "c # cs = [] @ ''/pokemon/'' @ ds @ ''/'' @ post"
      using match_here_Some by fastforce
    with Some show ?thesis by (metis option.simps(5) regexp_extract.simps(2))
  qed
qed

lemma regexp_extract_finds:
  assumes "ds \<noteq> []" "list_all is_digit ds"
  shows "regexp_extract (pre @ ''/pokemon/'' @ ds @ ''/'' @ post) \<noteq> []"
proof (induction pre)
  case Nil
  have "regexp_extract (''/pokemon/'' @ ds @ ''/'' @ post) = ds"
    using match_here_at [OF assms, of post] by simp
  with assms(1) show ?case by simp
next
  case (Cons c pre)
  show ?case
  proof (cases "match_here (c # pre @ ''/pokemon/'' @ ds @ ''/'' @ post)")
    case None
    with Cons show ?thesis by simp
  next
    case (Some ds')
    then have "ds' \<noteq> []" using match_here_Some by blast
    with Some show ?thesis by simp
  qed
qed

section \<open>Facts about the statements and \<^verbatim>\<open>load_data\<close>\<close>

lemma matches_iff: "matches s \<longleftrightarrow> regexp_extract s \<noteq> []"
proof
  assume "matches s"
  then show "regexp_extract s \<noteq> []"
    unfolding matches_def using regexp_extract_finds by blast
next
  assume ne: "regexp_extract s \<noteq> []"
  from regexp_extract_embedded [OF ne] regexp_extract_digits [of s] ne
  show "matches s" unfolding matches_def by blast
qed

lemma cast_integer_regexp_extract:
  "cast_integer (regexp_extract s) =
     (if matches s \<and> int (nat_of_digits (regexp_extract s)) \<le> 2147483647
      then Inr (int (nat_of_digits (regexp_extract s)))
      else Inl ConversionException)"
  by (simp add: cast_integer_def matches_iff regexp_extract_digits in_integer_def)

lemma pokemon_id_of_cases:
  "pokemon_id_of u = (if locator_ok u then Inr (embedded_id u) else Inl ConversionException)"
  by (cases u) (simp_all add: pokemon_id_of_def locator_ok_def embedded_id_def
      cast_integer_regexp_extract)

lemma project_row_cases:
  "project_row b r =
     (if in_integer b \<and> locator_ok (src_url r) then Inr (loaded_row b r)
      else Inl ConversionException)"
  by (simp add: project_row_def pokemon_id_of_cases loaded_row_def)

lemma select_rows_cases:
  "select_rows b rs =
     (if rs = [] \<or> (in_integer b \<and> list_all (\<lambda>r. locator_ok (src_url r)) rs)
      then Inr (map (loaded_row b) rs)
      else Inl ConversionException)"
  by (induction rs) (auto simp: project_row_cases)

lemma load_data_same: "sol_load_data = lab_load_data"
  by (intro ext) (simp add: sol_load_data_def lab_load_data_def)

lemma load_data_lab: "load_data impl = lab_load_data"
  by (cases impl) (simp_all add: load_data_same)

lemma pokedex_create_pokedex: "pokedex (create_pokedex w) = Some (pokedex_rows w)"
  by (simp add: create_pokedex_def pokedex_rows_def split: option.splits)

lemma create_pokedex_other:
  "metadata (create_pokedex w) = metadata w" "files (create_pokedex w) = files w"
  "requests (create_pokedex w) = requests w" "pokemon_stats (create_pokedex w) = pokemon_stats w"
  by (simp_all add: create_pokedex_def split: option.splits)

lemma in_integer_bindable: "in_integer b \<Longrightarrow> bindable b"
  by (simp add: in_integer_def bindable_def)

lemma insert_pokedex_create:
  "bindable b \<Longrightarrow> insert_pokedex b f (create_pokedex w) =
     (case files w f of
        None \<Rightarrow> Inl IOException
      | Some rs \<Rightarrow>
          if rs = [] \<or> (in_integer b \<and> list_all (\<lambda>r. locator_ok (src_url r)) rs)
          then Inr ((create_pokedex w)\<lparr>pokedex := Some (pokedex_rows w @ map (loaded_row b) rs)\<rparr>)
          else Inl ConversionException)"
  by (simp add: insert_pokedex_def pokedex_create_pokedex create_pokedex_other select_rows_cases
      split: option.splits)

lemma metadata_after_insert:
  "metadata ((create_pokedex w)\<lparr>pokedex := p\<rparr>) = metadata w"
  by (simp add: create_pokedex_other)

lemma lab_load_data_unbound:
  "\<not> bindable b \<Longrightarrow> lab_load_data f b w = (Inl InvalidInputException, create_pokedex w)"
  by (simp add: lab_load_data_def Let_def insert_pokedex_def pokedex_create_pokedex)

lemma lab_load_data_eq:
  assumes b: "bindable b"
  shows "lab_load_data f b w =
     (case files w f of
        None \<Rightarrow> (Inl IOException, create_pokedex w)
      | Some rs \<Rightarrow>
          if \<not> (rs = [] \<or> (in_integer b \<and> list_all (\<lambda>r. locator_ok (src_url r)) rs))
          then (Inl ConversionException, create_pokedex w)
          else
            (let w2 = (create_pokedex w)\<lparr>pokedex := Some (pokedex_rows w @ map (loaded_row b) rs)\<rparr>
             in case metadata w of
                  None \<Rightarrow> (Inl CatalogException, w2)
                | Some mrows \<Rightarrow>
                    if list_ex (\<lambda>r. r \<noteq> None) mrows \<and> \<not> in_integer b
                    then (Inl ConversionException, w2)
                    else if mrows = []
                    then (if in_integer b then (Inr (), w2\<lparr>metadata := Some [Some b]\<rparr>)
                          else (Inl ConversionException, w2\<lparr>metadata := Some []\<rparr>))
                    else (Inr (), w2\<lparr>metadata :=
                            Some (map (\<lambda>r. case r of None \<Rightarrow> None | Some v \<Rightarrow> Some b) mrows)\<rparr>)))"
proof (cases "files w f")
  case None
  then show ?thesis using b by (simp add: lab_load_data_def Let_def insert_pokedex_create)
next
  case (Some rs)
  show ?thesis
  proof (cases "rs = [] \<or> (in_integer b \<and> list_all (\<lambda>r. locator_ok (src_url r)) rs)")
    case False
    then have "\<not> (in_integer b \<and> list_all (\<lambda>r. locator_ok (src_url r)) rs)" "rs \<noteq> []"
      by auto
    with Some b show ?thesis
      by (auto simp add: lab_load_data_def Let_def insert_pokedex_create)
  next
    case True
    show ?thesis
    proof (cases "metadata w")
      case None
      with Some True b show ?thesis
        by (simp add: lab_load_data_def Let_def insert_pokedex_create update_metadata_def
            metadata_after_insert)
    next
      case (Some mrows)
      with \<open>files w f = Some rs\<close> True b show ?thesis
        by (simp add: lab_load_data_def Let_def insert_pokedex_create update_metadata_def
            metadata_after_insert count_metadata_def insert_metadata_def)
    qed
  qed
qed

lemma lab_load_data_success:
  assumes "lab_load_data f b w = (Inr u, w')"
  shows "\<exists>rs mrows. files w f = Some rs \<and> metadata w = Some mrows
           \<and> (rs = [] \<or> (in_integer b \<and> list_all (\<lambda>r. locator_ok (src_url r)) rs))
           \<and> pokedex w' = Some (pokedex_rows w @ map (loaded_row b) rs)
           \<and> metadata w' = Some (overwritten b mrows)
           \<and> files w' = files w \<and> requests w' = requests w
           \<and> pokemon_stats w' = pokemon_stats w"
proof -
  from assms have bb: "bindable b"
    by (cases "bindable b") (simp_all add: lab_load_data_unbound)
  note eq = lab_load_data_eq [OF bb]
  from assms obtain rs where rs: "files w f = Some rs"
    by (cases "files w f") (simp_all add: eq)
  from assms rs have ok: "rs = [] \<or> (in_integer b \<and> list_all (\<lambda>r. locator_ok (src_url r)) rs)"
    by (auto simp add: eq split: if_splits)
  from assms rs ok obtain mrows where m: "metadata w = Some mrows"
    by (cases "metadata w") (simp_all add: eq Let_def)
  from assms rs ok m have
    "w' = (create_pokedex w)\<lparr>pokedex := Some (pokedex_rows w @ map (loaded_row b) rs),
            metadata := Some (overwritten b mrows)\<rparr>"
    by (simp add: eq Let_def overwritten_def split: if_splits)
  with rs ok m show ?thesis by (simp add: create_pokedex_other)
qed

lemma lab_load_data_bad_locator:
  assumes "files w f = Some rs" "\<not> list_all (\<lambda>r. locator_ok (src_url r)) rs"
  shows "lab_load_data f b w =
           (Inl (if bindable b then ConversionException else InvalidInputException),
            create_pokedex w)"
proof (cases "bindable b")
  case True
  from assms(2) have "rs \<noteq> []" by auto
  with assms True show ?thesis by (simp add: lab_load_data_eq)
next
  case False
  then show ?thesis by (simp add: lab_load_data_unbound)
qed

lemma lab_load_data_appends:
  assumes "files w f = Some rs" "in_integer b" "list_all (\<lambda>r. locator_ok (src_url r)) rs"
  shows "pokedex (snd (lab_load_data f b w)) = Some (pokedex_rows w @ map (loaded_row b) rs)"
  using assms by (simp add: lab_load_data_eq in_integer_bindable Let_def split: option.splits)

lemma lab_load_data_returns:
  assumes "files w f = Some rs" "in_integer b" "list_all (\<lambda>r. locator_ok (src_url r)) rs"
    "metadata w = Some mrows"
  shows "fst (lab_load_data f b w) = Inr ()"
  using assms by (simp add: lab_load_data_eq in_integer_bindable Let_def)

section \<open>Facts about \<^verbatim>\<open>transform_data\<close>\<close>

lemma present_simps:
  "present [] = []" "present (None # xs) = present xs" "present (Some i # xs) = i # present xs"
  by (simp_all add: present_def)

lemma present_append: "present (xs @ ys) = present xs @ present ys"
  by (simp add: present_def)

lemma sql_min_Min:
  "sql_min xs = (if present xs = [] then None else Some (Min (set (present xs))))"
proof (induction xs rule: sql_min.induct)
  case 1
  show ?case by (simp add: present_simps)
next
  case (2 xs)
  then show ?case by (simp add: present_simps)
next
  case (3 v xs)
  then show ?case by (auto simp add: present_simps)
qed

lemma sql_max_Max:
  "sql_max xs = (if present xs = [] then None else Some (Max (set (present xs))))"
proof (induction xs rule: sql_max.induct)
  case 1
  show ?case by (simp add: present_simps)
next
  case (2 xs)
  then show ?case by (simp add: present_simps)
next
  case (3 v xs)
  then show ?case by (auto simp add: present_simps)
qed

lemma transform_data_eq:
  "transform_data impl w =
     (case pokedex w of
        None \<Rightarrow> (Inl CatalogException, w)
      | Some rows \<Rightarrow>
          (Inr (case impl of Lab \<Rightarrow> None | Solutions \<Rightarrow> Some ''pokemon_stats''),
           w\<lparr>pokemon_stats :=
                Some [\<lparr>total_pokemon = int (length rows),
                       first_id = sql_min (map pokemon_id rows),
                       stats_last_id = sql_max (map pokemon_id rows)\<rparr>]\<rparr>))"
  by (cases impl)
     (simp_all add: lab_transform_data_def sol_transform_data_def replace_pokemon_stats_def
       split: option.splits)

lemma stored_ids_loaded: "stored_ids (map (loaded_row b) rs) = batch_ids rs"
  by (simp add: stored_ids_def batch_ids_def loaded_row_def comp_def)

lemma stored_ids_append: "stored_ids (xs @ ys) = stored_ids xs \<union> stored_ids ys"
  by (simp add: stored_ids_def present_append)

section \<open>Facts about the examples\<close>

lemma regexp_extract_bulbasaur: "regexp_extract ''https://pokeapi.co/api/v2/pokemon/1/'' = ''1''"
  by (simp add: match_here_def is_digit_def)

lemma regexp_extract_ivysaur: "regexp_extract ''https://pokeapi.co/api/v2/pokemon/2/'' = ''2''"
  by (simp add: match_here_def is_digit_def)

lemma embedded_id_examples:
  "embedded_id (src_url bulbasaur) = Some 1" "embedded_id (src_url ivysaur) = Some 2"
  by (simp_all add: embedded_id_def bulbasaur_def ivysaur_def regexp_extract_bulbasaur
      regexp_extract_ivysaur nat_of_digits_def digit_val_def del: regexp_extract.simps)

lemma locator_ok_examples:
  "locator_ok (src_url bulbasaur)" "locator_ok (src_url ivysaur)"
  by (simp_all add: locator_ok_def matches_iff bulbasaur_def ivysaur_def
      regexp_extract_bulbasaur regexp_extract_ivysaur nat_of_digits_def digit_val_def
      del: regexp_extract.simps)

lemma loaded_row_examples:
  "loaded_row b bulbasaur =
     \<lparr>row_last_id = Some b, pokemon_id = Some 1, name = Some ''bulbasaur'',
      url = Some ''https://pokeapi.co/api/v2/pokemon/1/''\<rparr>"
  "loaded_row b ivysaur =
     \<lparr>row_last_id = Some b, pokemon_id = Some 2, name = Some ''ivysaur'',
      url = Some ''https://pokeapi.co/api/v2/pokemon/2/''\<rparr>"
  by (simp_all add: loaded_row_def embedded_id_examples) (simp_all add: bulbasaur_def ivysaur_def)

lemma stored_ids_Min:
  "sql_min (map pokemon_id rows) =
     (if stored_ids rows = {} then None else Some (Min (stored_ids rows)))"
  by (simp add: sql_min_Min stored_ids_def)

lemma stored_ids_Max:
  "sql_max (map pokemon_id rows) =
     (if stored_ids rows = {} then None else Some (Max (stored_ids rows)))"
  by (simp add: sql_max_Max stored_ids_def)

lemma two_files_simps:
  "metadata two_files = Some []" "pokedex two_files = None" "pokemon_stats two_files = None"
  "files two_files ''a.parquet'' = Some [bulbasaur]"
  "files two_files ''b.parquet'' = Some [ivysaur]" "requests two_files = []"
  "pokedex_rows two_files = []"
  by (simp_all add: two_files_def pokedex_rows_def)

lemma load_once:
  "lab_load_data ''a.parquet'' 10 two_files =
     (Inr (), two_files\<lparr>metadata := Some [Some 10],
                         pokedex := Some [loaded_row 10 bulbasaur]\<rparr>)"
  by (simp add: lab_load_data_eq bindable_def two_files_simps locator_ok_examples in_integer_def
      create_pokedex_def)

lemma loaded_once_eq:
  "loaded_once = two_files\<lparr>metadata := Some [Some 10],
                            pokedex := Some [loaded_row 10 bulbasaur]\<rparr>"
  by (simp add: loaded_once_def load_once)

lemma load_twice:
  "lab_load_data ''b.parquet'' 20 loaded_once =
     (Inr (), two_files\<lparr>metadata := Some [Some 20],
                         pokedex := Some [loaded_row 10 bulbasaur, loaded_row 20 ivysaur]\<rparr>)"
  by (simp add: lab_load_data_eq bindable_def loaded_once_eq two_files_simps locator_ok_examples
      in_integer_def create_pokedex_def pokedex_rows_def)

lemma loaded_twice_eq:
  "loaded_twice = two_files\<lparr>metadata := Some [Some 20],
                             pokedex := Some [loaded_row 10 bulbasaur, loaded_row 20 ivysaur]\<rparr>"
  by (simp add: loaded_twice_def load_twice)

lemma batch_ids_examples: "batch_ids [bulbasaur] = {1}" "batch_ids [ivysaur] = {2}"
  by (simp_all add: batch_ids_def present_def embedded_id_examples)

section \<open>Facts about the checkpoint\<close>

lemma sql_max_overwrite:
  "sql_max (map (\<lambda>r. case r of None \<Rightarrow> None | Some v \<Rightarrow> Some b) mrows) =
     (if present mrows = [] then None else Some b)"
proof (induction mrows)
  case Nil
  show ?case by (simp add: present_simps)
next
  case (Cons r mrows)
  then show ?case by (cases r) (simp_all add: present_simps)
qed

lemma sql_max_overwritten:
  "sql_max (overwritten b mrows) =
     (if mrows \<noteq> [] \<and> present mrows = [] then None else Some b)"
  by (simp add: overwritten_def sql_max_overwrite present_simps)

lemma select_checkpoint_create:
  "select_checkpoint (create_metadata w) =
     Inr (case sql_max (metadata_rows w) of None \<Rightarrow> 0 | Some m \<Rightarrow> m)"
  by (simp add: select_checkpoint_def create_metadata_def metadata_rows_def split: option.splits)

lemma extract_data_requests:
  "requests (snd (extract_data impl api limit None w)) =
     requests w @ [(limit, case sql_max (metadata_rows w) of None \<Rightarrow> 0 | Some m \<Rightarrow> m)]"
proof -
  have c: "requests (create_metadata w) = requests w"
    by (simp add: create_metadata_def split: option.splits)
  show ?thesis
    by (cases impl)
       (simp_all add: lab_extract_data_def sol_extract_data_def Let_def select_checkpoint_create c
         split: response.splits list.splits)
qed

section \<open>Facts about the odd files\<close>

lemma regexp_extract_big:
  "regexp_extract ''https://pokeapi.co/api/v2/pokemon/99999999999/'' = ''99999999999''"
  by (simp add: match_here_def is_digit_def)

lemma regexp_extract_bad: "regexp_extract ''https://pokeapi.co/api/v2/pokemon/'' = []"
  by (simp add: match_here_def is_digit_def)

lemma odd_files_simps:
  "metadata odd_files = Some []" "pokedex odd_files = Some []"
  "files odd_files ''big.parquet'' =
     Some [\<lparr>src_name = Some ''big'',
            src_url = Some ''https://pokeapi.co/api/v2/pokemon/99999999999/''\<rparr>]"
  "files odd_files ''bad.parquet'' =
     Some [bulbasaur, \<lparr>src_name = Some ''bad'',
                       src_url = Some ''https://pokeapi.co/api/v2/pokemon/''\<rparr>]"
  "files odd_files ''null.parquet'' = Some [\<lparr>src_name = Some ''null'', src_url = None\<rparr>]"
  "pokedex_rows odd_files = []" "create_pokedex odd_files = odd_files"
  by (simp_all add: odd_files_def pokedex_rows_def create_pokedex_def)

lemma lab_load_data_fails:
  assumes "files w f = Some rs" "r \<in> set rs" "\<not> locator_ok (src_url r)"
  shows "lab_load_data f b w =
           (Inl (if bindable b then ConversionException else InvalidInputException),
            create_pokedex w)"
proof -
  from assms(2,3) have "\<not> list_all (\<lambda>r. locator_ok (src_url r)) rs"
    by (auto simp add: list_all_iff)
  with assms(1) show ?thesis by (rule lab_load_data_bad_locator)
qed

lemma create_pokedex_rows: "pokedex_rows (create_pokedex w) = pokedex_rows w"
  by (simp add: pokedex_rows_def pokedex_create_pokedex)

lemma locator_ok_embedded:
  assumes "locator_ok (Some s)"
  shows "\<exists>pre ds post. s = pre @ ''/pokemon/'' @ ds @ ''/'' @ post \<and> ds \<noteq> [] \<and>
           list_all is_digit ds \<and> ds = regexp_extract s \<and>
           embedded_id (Some s) = Some (int (nat_of_digits ds))"
proof -
  from assms have ne: "regexp_extract s \<noteq> []" by (simp add: locator_ok_def matches_iff)
  from regexp_extract_embedded [OF ne] obtain pre post where
    "s = pre @ ''/pokemon/'' @ regexp_extract s @ ''/'' @ post" by blast
  with ne regexp_extract_digits [of s] show ?thesis
    by (auto simp add: embedded_id_def)
qed

section \<open>Facts about \<^verbatim>\<open>extract_data\<close>\<close>

lemma create_metadata_simps:
  "metadata (create_metadata w) = Some (metadata_rows w)"
  "pokedex (create_metadata w) = pokedex w"
  "pokemon_stats (create_metadata w) = pokemon_stats w"
  "files (create_metadata w) = files w"
  "requests (create_metadata w) = requests w"
  by (simp_all add: create_metadata_def metadata_rows_def split: option.splits)

lemma resolve_offset:
  "(case last_id of None \<Rightarrow> select_checkpoint (create_metadata w) | Some i \<Rightarrow> Inr i) =
     Inr (resolved_offset last_id w)"
  by (cases last_id)
     (simp_all add: resolved_offset_def checkpoint_value_def select_checkpoint_create)

lemma extract_data_eq:
  "extract_data impl api limit last_id w =
     (case api limit (resolved_offset last_id w) of
        Failed \<Rightarrow>
          (Inl RequestException,
           (create_metadata w)\<lparr>requests := requests w @ [(limit, resolved_offset last_id w)]\<rparr>)
      | Results [] \<Rightarrow>
          (Inl InvalidInputException,
           (create_metadata w)\<lparr>requests := requests w @ [(limit, resolved_offset last_id w)]\<rparr>)
      | Results (r # rs) \<Rightarrow>
          (Inr (file_name impl (resolved_offset last_id w), resolved_offset last_id w + limit),
           (create_metadata w)
             \<lparr>requests := requests w @ [(limit, resolved_offset last_id w)],
              files := (files w)(file_name impl (resolved_offset last_id w) \<mapsto> r # rs)\<rparr>))"
  by (cases impl)
     (simp_all add: lab_extract_data_def sol_extract_data_def Let_def resolve_offset
       create_metadata_simps file_name_def split: response.splits list.splits)

lemma checkpoint_value_cases:
  "metadata_rows w = [] \<Longrightarrow> checkpoint_value w = 0"
  "metadata w = Some [Some c] \<Longrightarrow> checkpoint_value w = c"
  "present (metadata_rows w) \<noteq> [] \<Longrightarrow>
     checkpoint_value w = Max (set (present (metadata_rows w)))"
  by (simp_all add: checkpoint_value_def metadata_rows_def sql_max_Max present_simps)

lemma file_name_examples:
  "file_name Lab 0 = ''pokedex_000.parquet''"
  "file_name Lab 30 = ''pokedex_030.parquet''"
  "file_name Lab 1000 = ''pokedex_1000.parquet''"
  "file_name Solutions 0 = ''pokedex_0000000000.parquet''"
  "file_name Solutions 10 = ''pokedex_0000000010.parquet''"
  by code_simp+

lemma fresh_simps:
  "metadata fresh = None" "pokedex fresh = None" "pokemon_stats fresh = None"
  "requests fresh = []" "metadata_rows fresh = []" "pokedex_rows fresh = []"
  by (simp_all add: fresh_def metadata_rows_def pokedex_rows_def)

section \<open>Facts about file names\<close>

lemma length_str_nat: "0 < k \<Longrightarrow> length (str_nat n) \<le> k \<longleftrightarrow> n < 10 ^ k"
proof (induction n arbitrary: k rule: str_nat.induct)
  case (1 n)
  show ?case
  proof (cases "n < 10")
    case True
    have "(10::nat) ^ 1 \<le> 10 ^ k" using 1(2) by (intro power_increasing) simp_all
    with True have "n < 10 ^ k" by simp
    with True 1(2) show ?thesis by (simp add: str_nat.simps [of n] Suc_le_eq)
  next
    case False
    have len: "length (str_nat n) = Suc (length (str_nat (n div 10)))"
      using False by (simp add: str_nat.simps [of n])
    show ?thesis
    proof (cases k)
      case 0
      with 1(2) show ?thesis by simp
    next
      case (Suc j)
      show ?thesis
      proof (cases "j = 0")
        case True
        have "0 < length (str_nat (n div 10))" using str_nat_not_Nil by simp
        with True Suc False len show ?thesis by simp
      next
        case j: False
        then have "length (str_nat (n div 10)) \<le> j \<longleftrightarrow> n div 10 < 10 ^ j"
          using 1(1) [OF False, of j] by simp
        moreover have "n div 10 < 10 ^ j \<longleftrightarrow> n < 10 ^ j * 10"
          by (simp add: div_less_iff_less_mult)
        ultimately show ?thesis using Suc len by (simp add: mult.commute)
      qed
    qed
  qed
qed

lemma file_name_inj: "file_name impl1 off1 = file_name impl2 off2 \<Longrightarrow> off1 = off2"
proof -
  assume "file_name impl1 off1 = file_name impl2 off2"
  then have "zfill (pad_width impl1) (str_int off1) = zfill (pad_width impl2) (str_int off2)"
    by (simp add: file_name_def)
  then have "parse_int (zfill (pad_width impl1) (str_int off1)) =
             parse_int (zfill (pad_width impl2) (str_int off2))" by simp
  then show "off1 = off2" by (simp only: parse_int_zfill)
qed

lemma length_file_name:
  "length (file_name impl off) = 16 + max (pad_width impl) (length (str_int off))"
  by (simp add: file_name_def length_zfill)

lemma pad_width_pos: "0 < pad_width impl"
  by (cases impl) simp_all

lemma length_file_name_small:
  assumes "0 \<le> off" "off < 10 ^ pad_width impl"
  shows "length (file_name impl off) = 16 + pad_width impl"
proof -
  from assms have "nat off < 10 ^ pad_width impl"
    by (metis nat_less_iff of_nat_numeral of_nat_power)
  then have "length (str_nat (nat off)) \<le> pad_width impl"
    using length_str_nat [OF pad_width_pos] by simp
  with assms(1) show ?thesis by (simp add: length_file_name str_int_def max_def)
qed

lemma length_file_name_large:
  assumes "10 ^ pad_width impl \<le> off"
  shows "16 + pad_width impl < length (file_name impl off)"
proof -
  have "(0::int) < 10 ^ pad_width impl" by simp
  with assms have nn: "0 \<le> off" by linarith
  from assms nn have "\<not> nat off < 10 ^ pad_width impl"
    by (metis nat_less_iff not_less of_nat_numeral of_nat_power)
  then have "\<not> length (str_nat (nat off)) \<le> pad_width impl"
    using length_str_nat [OF pad_width_pos] by simp
  with nn show ?thesis by (simp add: length_file_name str_int_def max_def)
qed

section \<open>Facts about the driver\<close>

lemma main_eq:
  "main impl api w =
     (case extract_data impl api (driver_limit impl) None w of
        (Inl e, w1) \<Rightarrow> (Inl e, w1)
      | (Inr (file_path_1, new_last_id_1), w1) \<Rightarrow>
          (case extract_data impl api (driver_limit impl) (Some new_last_id_1) w1 of
             (Inl e, w2) \<Rightarrow> (Inl e, w2)
           | (Inr (file_path_2, new_last_id_2), w2) \<Rightarrow>
               (case load_data impl file_path_1 new_last_id_1 w2 of
                  (Inl e, w3) \<Rightarrow> (Inl e, w3)
                | (Inr u1, w3) \<Rightarrow>
                    (case load_data impl file_path_2 new_last_id_2 w3 of
                       (Inl e, w4) \<Rightarrow> (Inl e, w4)
                     | (Inr u2, w4) \<Rightarrow>
                         (case transform_data impl w4 of
                            (Inl e, w5) \<Rightarrow> (Inl e, w5)
                          | (Inr t, w5) \<Rightarrow> (Inr (), w5))))))"
proof (cases impl)
  case Lab
  show ?thesis
    unfolding Lab main.simps lab_main_def extract_data.simps load_data.simps
      transform_data.simps driver_limit.simps
    by (rule refl)
next
  case Solutions
  show ?thesis
    unfolding Solutions main.simps sol_main_def extract_data.simps load_data.simps
      transform_data.simps driver_limit.simps
    by (rule refl)
qed

lemma main_success:
  assumes "main impl api w = (Inr u, w')"
  shows "\<exists>fp1 n1 w1 fp2 n2 w2 u1 w3 u2 w4 t.
           extract_data impl api (driver_limit impl) None w = (Inr (fp1, n1), w1) \<and>
           extract_data impl api (driver_limit impl) (Some n1) w1 = (Inr (fp2, n2), w2) \<and>
           load_data impl fp1 n1 w2 = (Inr u1, w3) \<and>
           load_data impl fp2 n2 w3 = (Inr u2, w4) \<and>
           transform_data impl w4 = (Inr t, w')"
  using assms unfolding main_eq
  by (simp split: prod.splits sum.splits)

lemma extract_data_success:
  assumes "extract_data impl api limit last_id w = (Inr (fp, n), w1)"
  shows "\<exists>page. api limit (resolved_offset last_id w) = Results page \<and>
           fp = file_name impl (resolved_offset last_id w) \<and>
           n = resolved_offset last_id w + limit \<and>
           metadata w1 = Some (metadata_rows w) \<and> pokedex w1 = pokedex w \<and>
           pokemon_stats w1 = pokemon_stats w \<and>
           requests w1 = requests w @ [(limit, resolved_offset last_id w)] \<and>
           files w1 = (files w)(fp \<mapsto> page)"
  using assms
  by (auto simp add: extract_data_eq create_metadata_simps split: response.splits list.splits)

lemma transform_data_success:
  assumes "transform_data impl w = (Inr t, w')"
  shows "metadata w' = metadata w \<and> pokedex w' = pokedex w \<and> files w' = files w \<and>
         requests w' = requests w"
  using assms by (auto simp add: transform_data_eq split: option.splits)

lemma regexp_extract_more:
  "regexp_extract ''https://pokeapi.co/api/v2/pokemon/11/'' = ''11''"
  "regexp_extract ''https://pokeapi.co/api/v2/pokemon/31/'' = ''31''"
  by (simp_all add: match_here_def is_digit_def)

lemma locator_ok_more: "locator_ok (src_url metapod)" "locator_ok (src_url nidoqueen)"
  by (simp_all add: locator_ok_def matches_iff metapod_def nidoqueen_def
      regexp_extract_more nat_of_digits_def digit_val_def del: regexp_extract.simps)

lemma embedded_id_more:
  "embedded_id (src_url metapod) = Some 11" "embedded_id (src_url nidoqueen) = Some 31"
  by (simp_all add: embedded_id_def metapod_def nidoqueen_def regexp_extract_more
      nat_of_digits_def digit_val_def del: regexp_extract.simps)

lemma main_lab_example:
  "main Lab example_api fresh =
     (Inr (),
      \<lparr>metadata = Some [Some 60],
       pokedex = Some [loaded_row 30 bulbasaur, loaded_row 30 ivysaur, loaded_row 60 nidoqueen],
       pokemon_stats = Some [\<lparr>total_pokemon = 3, first_id = Some 1, stats_last_id = Some 31\<rparr>],
       files = (\<lambda>p. None)(''pokedex_000.parquet'' \<mapsto> [bulbasaur, ivysaur],
                               ''pokedex_030.parquet'' \<mapsto> [nidoqueen]),
       requests = [(30, 0), (30, 30)]\<rparr>)"
  by (simp add: main_eq extract_data_eq lab_load_data_eq bindable_def load_data_lab
      transform_data_eq
      resolved_offset_def checkpoint_value_def metadata_rows_def example_api_def
      file_name_examples
      locator_ok_examples locator_ok_more create_metadata_def create_pokedex_def
      pokedex_rows_def in_integer_def fresh_def loaded_row_def embedded_id_examples
      embedded_id_more
      del: extract_data.simps load_data.simps transform_data.simps main.simps)

lemma driver_limit_nonzero: "driver_limit impl \<noteq> 0"
  by (cases impl) simp_all

text \<open>What a run of the driver that completes has done.\<close>

lemma main_run:
  assumes "main impl api w = (Inr u, w')"
  shows "\<exists>page1 page2.
        api (driver_limit impl) (checkpoint_value w) = Results page1 \<and>
        api (driver_limit impl) (checkpoint_value w + driver_limit impl) = Results page2 \<and>
        requests w' = requests w @
          [(driver_limit impl, checkpoint_value w),
           (driver_limit impl, checkpoint_value w + driver_limit impl)] \<and>
        files w' (file_name impl (checkpoint_value w)) = Some page1 \<and>
        files w' (file_name impl (checkpoint_value w + driver_limit impl)) = Some page2 \<and>
        pokedex w' =
          Some (pokedex_rows w
                @ map (loaded_row (checkpoint_value w + driver_limit impl)) page1
                @ map (loaded_row (checkpoint_value w + 2 * driver_limit impl)) page2) \<and>
        metadata w' =
          Some (overwritten (checkpoint_value w + 2 * driver_limit impl)
                  (overwritten (checkpoint_value w + driver_limit impl) (metadata_rows w))) \<and>
        (\<exists>s. pokemon_stats w' = Some [s] \<and>
           total_pokemon s =
             int (length (pokedex_rows w)) + int (length page1) + int (length page2))"
proof -
  let ?L = "driver_limit impl" and ?c = "checkpoint_value w"
  from main_success [OF assms] obtain fp1 n1 w1 fp2 n2 w2 u1 w3 u2 w4 t where
    e1: "extract_data impl api ?L None w = (Inr (fp1, n1), w1)" and
    e2: "extract_data impl api ?L (Some n1) w1 = (Inr (fp2, n2), w2)" and
    l1: "load_data impl fp1 n1 w2 = (Inr u1, w3)" and
    l2: "load_data impl fp2 n2 w3 = (Inr u2, w4)" and
    t: "transform_data impl w4 = (Inr t, w')"
    by blast
  have r1: "resolved_offset None w = ?c" by (simp add: resolved_offset_def)
  from extract_data_success [OF e1] r1 obtain page1 where
    a1: "api ?L ?c = Results page1" and fp1: "fp1 = file_name impl ?c" and n1: "n1 = ?c + ?L"
    and w1: "pokedex w1 = pokedex w" "requests w1 = requests w @ [(?L, ?c)]"
      "files w1 = (files w)(fp1 \<mapsto> page1)" "metadata w1 = Some (metadata_rows w)"
    by auto
  have r2: "resolved_offset (Some n1) w1 = ?c + ?L" by (simp add: resolved_offset_def n1)
  from extract_data_success [OF e2] r2 obtain page2 where
    a2: "api ?L (?c + ?L) = Results page2" and fp2: "fp2 = file_name impl (?c + ?L)"
    and n2: "n2 = ?c + ?L + ?L"
    and w2: "pokedex w2 = pokedex w1" "requests w2 = requests w1 @ [(?L, ?c + ?L)]"
      "files w2 = (files w1)(fp2 \<mapsto> page2)" "metadata w2 = Some (metadata_rows w1)"
    by auto
  have ne: "?c + ?L \<noteq> ?c" using driver_limit_nonzero [of impl] by simp
  then have fne: "fp1 \<noteq> fp2" using file_name_inj [of impl ?c impl "?c + ?L"] fp1 fp2 by auto
  have f1: "files w2 fp1 = Some page1" using w1 w2 fne by simp
  have f2: "files w2 fp2 = Some page2" using w2 by simp
  from l1 have "lab_load_data fp1 n1 w2 = (Inr u1, w3)" by (simp add: load_data_lab)
  from lab_load_data_success [OF this] f1
  have w3: "pokedex w3 = Some (pokedex_rows w2 @ map (loaded_row n1) page1)"
    "files w3 = files w2" "requests w3 = requests w2"
    "metadata w3 = Some (overwritten n1 (metadata_rows w2))"
    by (auto simp add: metadata_rows_def)
  from l2 have "lab_load_data fp2 n2 w3 = (Inr u2, w4)" by (simp add: load_data_lab)
  from lab_load_data_success [OF this] f2 w3
  have w4: "pokedex w4 = Some (pokedex_rows w3 @ map (loaded_row n2) page2)"
    "files w4 = files w3" "requests w4 = requests w3"
    "metadata w4 = Some (overwritten n2 (metadata_rows w3))"
    by (auto simp add: metadata_rows_def)
  from transform_data_success [OF t]
  have w5: "pokedex w' = pokedex w4" "files w' = files w4" "requests w' = requests w4"
    "metadata w' = metadata w4"
    by auto
  have rows2: "pokedex_rows w2 = pokedex_rows w" using w1 w2 by (simp add: pokedex_rows_def)
  have rows3: "pokedex_rows w3 = pokedex_rows w @ map (loaded_row n1) page1"
    using w3 rows2 by (simp add: pokedex_rows_def)
  have p: "pokedex w' = Some (pokedex_rows w @ map (loaded_row (?c + ?L)) page1
                @ map (loaded_row (?c + 2 * ?L)) page2)"
  proof -
    have "n2 = ?c + 2 * ?L" using n2 by simp
    with w5 w4 rows3 n1 show ?thesis by (simp only: append_assoc)
  qed
  have rq: "requests w' = requests w @ [(?L, ?c), (?L, ?c + ?L)]"
    using w5 w4 w3 w2 w1 by simp
  have g1: "files w' (file_name impl ?c) = Some page1" using w5 w4 w3 f1 fp1 by simp
  have g2: "files w' (file_name impl (?c + ?L)) = Some page2" using w5 w4 w3 f2 fp2 by simp
  have md: "metadata w' =
      Some (overwritten (?c + 2 * ?L) (overwritten (?c + ?L) (metadata_rows w)))"
  proof -
    have "n2 = ?c + 2 * ?L" using n2 by simp
    moreover have "metadata_rows w2 = metadata_rows w" using w1 w2 by (simp add: metadata_rows_def)
    ultimately show ?thesis using w5 w4 w3 n1 by (simp add: metadata_rows_def)
  qed
  have st: "\<exists>s. pokemon_stats w' = Some [s] \<and>
      total_pokemon s = int (length (pokedex_rows w)) + int (length page1) + int (length page2)"
    using t w4 rows3 by (auto simp add: transform_data_eq split: option.splits)
  from a1 a2 rq g1 g2 p md st show ?thesis by blast
qed

section \<open>Facts about the two files side by side\<close>

lemma lab_extract_data_eq:
  "lab_extract_data api limit last_id w = extract_data Lab api limit last_id w"
  by simp

lemma sol_extract_data_eq:
  "sol_extract_data api limit last_id w = extract_data Solutions api limit last_id w"
  by simp

lemma lab_transform_data_eq: "lab_transform_data w = transform_data Lab w"
  by simp

lemma sol_transform_data_eq: "sol_transform_data w = transform_data Solutions w"
  by simp

lemma main_sol_example:
  "main Solutions example_api fresh =
     (Inr (),
      \<lparr>metadata = Some [Some 20],
       pokedex = Some [loaded_row 10 bulbasaur, loaded_row 10 ivysaur, loaded_row 20 metapod],
       pokemon_stats = Some [\<lparr>total_pokemon = 3, first_id = Some 1, stats_last_id = Some 11\<rparr>],
       files = (\<lambda>p. None)(''pokedex_0000000000.parquet'' \<mapsto> [bulbasaur, ivysaur],
                               ''pokedex_0000000010.parquet'' \<mapsto> [metapod]),
       requests = [(10, 0), (10, 10)]\<rparr>)"
  by (simp add: main_eq extract_data_eq lab_load_data_eq bindable_def load_data_lab
      transform_data_eq
      resolved_offset_def checkpoint_value_def metadata_rows_def example_api_def
      file_name_examples
      locator_ok_examples locator_ok_more create_metadata_def create_pokedex_def
      pokedex_rows_def in_integer_def fresh_def loaded_row_def embedded_id_examples
      embedded_id_more
      del: extract_data.simps load_data.simps transform_data.simps main.simps)

section \<open>Facts about the worlds the code brings about\<close>

lemma null_free_present: "list_all (\<lambda>r. r \<noteq> None) xs \<Longrightarrow> xs \<noteq> [] \<Longrightarrow> present xs \<noteq> []"
  by (cases xs) (auto simp add: present_simps)

lemma overwritten_null_free:
  "list_all (\<lambda>r. r \<noteq> None) mrows \<Longrightarrow>
     overwritten b mrows = (if mrows = [] then [Some b] else map (\<lambda>r. Some b) mrows)"
  by (auto simp add: overwritten_def list_all_iff)

lemma lab_load_data_null_free:
  assumes "null_free w"
  shows "null_free (snd (lab_load_data f b w))"
proof (cases "bindable b")
  case False
  with assms show ?thesis
    by (simp add: lab_load_data_unbound null_free_def metadata_rows_def create_pokedex_other)
next
  case True
  from assms show ?thesis
    by (auto simp add: lab_load_data_eq [OF True] Let_def null_free_def metadata_rows_def
        create_pokedex_other list_all_iff split: option.splits)
qed

lemma extract_data_null_free:
  "null_free (snd (extract_data impl api limit last_id w)) = null_free w"
  by (simp add: extract_data_eq null_free_def metadata_rows_def create_metadata_simps
      split: response.splits list.splits option.splits)

lemma transform_data_null_free: "null_free (snd (transform_data impl w)) = null_free w"
  by (simp add: transform_data_eq null_free_def metadata_rows_def split: option.splits)

lemma reachable_null_free: "reachable w \<Longrightarrow> null_free w"
proof (induction rule: reachable.induct)
  case (at_start w)
  then show ?case by (simp add: null_free_def)
next
  case (after_extract w impl api limit last_id)
  then show ?case by (simp only: extract_data_null_free)
next
  case (after_load w impl f b)
  then show ?case by (simp add: load_data_lab lab_load_data_null_free)
next
  case (after_transform w impl)
  then show ?case by (simp only: transform_data_null_free)
qed

section \<open>The properties\<close>

text \<open>
  C1. After a successful \<^verbatim>\<open>load_data(f, b)\<close>, the checkpoint read that \<^verbatim>\<open>extract_data\<close>
  performs when \<^verbatim>\<open>last_id\<close> is absent returns exactly \<open>b\<close>, and the next request is sent
  for offset \<open>b\<close>, whatever the checkpoint held before and whether or not a row existed:
  an empty table gets the row \<open>b\<close>, and otherwise every row is overwritten by \<open>b\<close>. This
  holds in every world whose checkpoint rows hold integers, and those are all the worlds
  the code brings about: the only writes to the table store the integer \<^verbatim>\<open>new_last_id\<close>, so
  the guard \<^verbatim>\<open>last_id IS NOT NULL\<close> of the \<^verbatim>\<open>UPDATE\<close> never leaves a row out.
\<close>

theorem load_data_writes_checkpoint:
  "(load_data impl f b w = (Inr u, w') \<and> null_free w \<longrightarrow>
        select_checkpoint (create_metadata w') = Inr b \<and>
        requests (snd (extract_data impl' api limit None w')) = requests w' @ [(limit, b)] \<and>
        metadata w' = Some (if metadata_rows w = [] then [Some b]
                            else map (\<lambda>r. Some b) (metadata_rows w)) \<and>
        null_free w') \<and>
   (load_data impl f b w = (Inr u, w') \<and> metadata_rows w = [] \<longrightarrow>
        metadata w' = Some [Some b]) \<and>
   (load_data impl f b w = (Inr u, w') \<and> metadata w = Some [Some v] \<longrightarrow>
        metadata w' = Some [Some b]) \<and>
   (reachable w \<longrightarrow> null_free w)"
proof (intro conjI impI)
  assume a: "load_data impl f b w = (Inr u, w') \<and> null_free w"
  then have l: "lab_load_data f b w = (Inr u, w')" by (simp add: load_data_lab)
  from lab_load_data_success [OF l] obtain mrows where
    m: "metadata w = Some mrows" "metadata w' = Some (overwritten b mrows)" by blast
  from m a have nf: "list_all (\<lambda>r. r \<noteq> None) mrows"
    by (simp add: null_free_def metadata_rows_def)
  then have "mrows = [] \<or> present mrows \<noteq> []" using null_free_present by blast
  then have "sql_max (overwritten b mrows) = Some b" by (auto simp add: sql_max_overwritten)
  with m have r: "(case sql_max (metadata_rows w') of None \<Rightarrow> 0 | Some m \<Rightarrow> m) = b"
    by (simp add: metadata_rows_def)
  show "select_checkpoint (create_metadata w') = Inr b"
    by (simp only: select_checkpoint_create r)
  show "requests (snd (extract_data impl' api limit None w')) = requests w' @ [(limit, b)]"
    by (simp only: extract_data_requests r)
  show "metadata w' = Some (if metadata_rows w = [] then [Some b]
                            else map (\<lambda>r. Some b) (metadata_rows w))"
    using m overwritten_null_free [OF nf, of b] by (simp add: metadata_rows_def)
  from a have "null_free (snd (lab_load_data f b w))" by (simp add: lab_load_data_null_free)
  with l show "null_free w'" by simp
next
  assume a: "load_data impl f b w = (Inr u, w') \<and> metadata_rows w = []"
  then have "lab_load_data f b w = (Inr u, w')" by (simp add: load_data_lab)
  from lab_load_data_success [OF this] obtain mrows where
    m: "metadata w = Some mrows" "metadata w' = Some (overwritten b mrows)" by blast
  with a show "metadata w' = Some [Some b]" by (simp add: metadata_rows_def overwritten_def)
next
  assume a: "load_data impl f b w = (Inr u, w') \<and> metadata w = Some [Some v]"
  then have "lab_load_data f b w = (Inr u, w')" by (simp add: load_data_lab)
  from lab_load_data_success [OF this] obtain mrows where
    m: "metadata w = Some mrows" "metadata w' = Some (overwritten b mrows)" by blast
  with a show "metadata w' = Some [Some b]" by (simp add: overwritten_def)
next
  assume "reachable w"
  then show "null_free w" by (rule reachable_null_free)
qed

theorem load_data_writes_checkpoint_witness:
  "metadata_rows two_files = [] \<and> reachable two_files \<and>
   load_data Lab ''a.parquet'' 10 two_files = (Inr (), loaded_once) \<and>
   metadata loaded_once = Some [Some 10] \<and>
   reachable loaded_once \<and> null_free loaded_once \<and>
   load_data Lab ''b.parquet'' 20 loaded_once = (Inr (), loaded_twice) \<and>
   select_checkpoint (create_metadata loaded_twice) = Inr 20 \<and>
   requests (snd (extract_data Solutions (\<lambda>l off. Failed) 10 None loaded_twice)) = [(10, 20)] \<and>
   metadata loaded_twice = Some [Some 20] \<and> null_free loaded_twice"
proof -
  have h1: "load_data Lab ''b.parquet'' 20 loaded_once = (Inr (), loaded_twice)"
    using load_twice by (simp only: load_data.simps loaded_twice_eq [symmetric])
  have h0: "load_data Lab ''a.parquet'' 10 two_files = (Inr (), loaded_once)"
    using load_once by (simp only: load_data.simps loaded_once_eq [symmetric])
  have h4: "metadata_rows two_files = []" by (simp add: metadata_rows_def two_files_simps)
  then have r0: "reachable two_files" by (rule reachable.at_start)
  have r1: "reachable loaded_once"
    unfolding loaded_once_def by (rule reachable.after_load [OF r0])
  from load_data_writes_checkpoint [of Lab "''a.parquet''" 10 two_files "()" loaded_once] h0 h4
  have h2: "metadata loaded_once = Some [Some 10]" by blast
  from load_data_writes_checkpoint [where w = loaded_once] r1
  have h3: "null_free loaded_once" by blast
  have rq: "requests loaded_twice = []" by (simp add: loaded_twice_eq two_files_simps)
  note t = load_data_writes_checkpoint [of Lab "''b.parquet''" 20 loaded_once "()" loaded_twice
      Solutions "\<lambda>l off. Failed" 10 10]
  from t h1 h2 h3 have c1: "select_checkpoint (create_metadata loaded_twice) = Inr 20"
    and c2: "requests (snd (extract_data Solutions (\<lambda>l off. Failed) 10 None loaded_twice))
               = requests loaded_twice @ [(10, 20)]"
    and c3: "metadata loaded_twice = Some [Some 20]"
    and c4: "null_free loaded_twice"
    by blast+
  from h0 h1 h2 h3 h4 r0 r1 c1 c2 c3 c4 rq show ?thesis by simp
qed

text \<open>
  C2. \<^verbatim>\<open>extract_data\<close> does not return for every limit and offset. When the API answers the
  request with a \<^verbatim>\<open>results\<close> list that holds no record, as it does for an offset past the
  end of the catalogue, the data frame made from the list has no column,
  \<^verbatim>\<open>duckdb.from_df\<close> refuses it, and the call ends with an invalid-input error: the request
  has been sent, no file is written and no next offset is returned, in either file. The
  docstring of \<^verbatim>\<open>extract_data\<close> promises the pair of the path and \<^verbatim>\<open>last_id + limit\<close>, and
  lists the request exception as the only error.
\<close>

theorem extract_data_empty_page:
  "api limit (resolved_offset last_id w) = Results [] \<longrightarrow>
     fst (extract_data impl api limit last_id w) = Inl InvalidInputException \<and>
     requests (snd (extract_data impl api limit last_id w)) =
       requests w @ [(limit, resolved_offset last_id w)] \<and>
     files (snd (extract_data impl api limit last_id w)) = files w \<and>
     metadata_rows (snd (extract_data impl api limit last_id w)) = metadata_rows w"
  by (simp add: extract_data_eq create_metadata_simps metadata_rows_def)

theorem extract_data_empty_page_witness:
  "resolved_offset (Some 2000) fresh = 2000 \<and>
   fst (extract_data Lab (\<lambda>limit off. if off < 1302 then Results [bulbasaur] else Results [])
          10 (Some 2000) fresh) = Inl InvalidInputException \<and>
   fst (extract_data Solutions (\<lambda>limit off. if off < 1302 then Results [bulbasaur] else Results [])
          10 (Some 2000) fresh) = Inl InvalidInputException \<and>
   requests (snd (extract_data Solutions
          (\<lambda>limit off. if off < 1302 then Results [bulbasaur] else Results [])
          10 (Some 2000) fresh)) = [(10, 2000)] \<and>
   files (snd (extract_data Solutions
          (\<lambda>limit off. if off < 1302 then Results [bulbasaur] else Results [])
          10 (Some 2000) fresh)) = files fresh"
proof -
  let ?api = "\<lambda>limit off :: int. if off < 1302 then Results [bulbasaur] else Results []"
  have r: "resolved_offset (Some 2000) fresh = 2000" by (simp add: resolved_offset_def)
  then have h: "?api 10 (resolved_offset (Some 2000) fresh) = Results []" by simp
  from extract_data_empty_page [of ?api 10 "Some 2000" fresh Lab] h r
  have c1: "fst (extract_data Lab ?api 10 (Some 2000) fresh) = Inl InvalidInputException"
    by blast
  from extract_data_empty_page [of ?api 10 "Some 2000" fresh Solutions] h r
  have c2: "fst (extract_data Solutions ?api 10 (Some 2000) fresh) = Inl InvalidInputException"
    and c3: "requests (snd (extract_data Solutions ?api 10 (Some 2000) fresh)) =
               requests fresh @ [(10, resolved_offset (Some 2000) fresh)]"
    and c4: "files (snd (extract_data Solutions ?api 10 (Some 2000) fresh)) = files fresh"
    by blast+
  from c3 r have c3': "requests (snd (extract_data Solutions ?api 10 (Some 2000) fresh)) =
      [(10, 2000)]" by (simp only: fresh_simps append_Nil)
  from r c1 c2 c3' c4 show ?thesis by (simp only: simp_thms)
qed

text \<open>
  C3 (amended). When the file holds a record whose locator is text in which the pattern
  \<^verbatim>\<open>/pokemon/(\d+)/\<close> does not occur, or occurs with a number greater than 2147483647,
  \<^verbatim>\<open>load_data\<close> fails, no row of the file reaches \<^verbatim>\<open>pokedex\<close> and the checkpoint is not
  written; the only change is that \<^verbatim>\<open>pokedex\<close> exists afterwards. The error is DuckDB's
  conversion error (the spec's MalformedRecordError) for every batch offset that can be
  bound as a parameter, those of 32 bits among them; a batch offset beyond 128 bits is
  refused before the statement runs, with an invalid-input error, whatever the file
  holds. When every locator is NULL or matches with a number within \<^verbatim>\<open>INTEGER\<close> and the
  batch offset is within \<^verbatim>\<open>INTEGER\<close>, every row of the file is appended, in order, tagged
  with the batch offset, and the call returns if the checkpoint table exists. A NULL
  locator is accepted and gives a NULL id.
\<close>

theorem load_data_all_or_nothing:
  "(files w f = Some rs \<and> r \<in> set rs \<and> src_url r = Some s \<and>
      (\<not> matches s \<or> 2147483647 < int (nat_of_digits (regexp_extract s))) \<longrightarrow>
        load_data impl f b w =
          (Inl (if bindable b then ConversionException else InvalidInputException),
           create_pokedex w) \<and>
        pokedex_rows (snd (load_data impl f b w)) = pokedex_rows w \<and>
        metadata (snd (load_data impl f b w)) = metadata w) \<and>
   (\<not> bindable b \<longrightarrow>
        load_data impl f b w = (Inl InvalidInputException, create_pokedex w)) \<and>
   (files w f = Some rs \<and> in_integer b \<and> (\<forall>r \<in> set rs. locator_ok (src_url r)) \<longrightarrow>
        pokedex (snd (load_data impl f b w)) = Some (pokedex_rows w @ map (loaded_row b) rs) \<and>
        (metadata w \<noteq> None \<longrightarrow> fst (load_data impl f b w) = Inr ())) \<and>
   (src_url r = None \<longrightarrow> locator_ok (src_url r) \<and> pokemon_id (loaded_row b r) = None)"
proof (intro conjI impI)
  assume a: "files w f = Some rs \<and> r \<in> set rs \<and> src_url r = Some s \<and>
      (\<not> matches s \<or> 2147483647 < int (nat_of_digits (regexp_extract s)))"
  then have "\<not> locator_ok (src_url r)" by (auto simp add: locator_ok_def)
  with a have e: "lab_load_data f b w =
      (Inl (if bindable b then ConversionException else InvalidInputException),
       create_pokedex w)"
    using lab_load_data_fails by blast
  then show "load_data impl f b w =
      (Inl (if bindable b then ConversionException else InvalidInputException),
       create_pokedex w)"
    by (simp only: load_data_lab)
  from e show "pokedex_rows (snd (load_data impl f b w)) = pokedex_rows w"
    by (simp only: load_data_lab snd_conv create_pokedex_rows)
  from e show "metadata (snd (load_data impl f b w)) = metadata w"
    by (simp only: load_data_lab snd_conv create_pokedex_other)
next
  assume "\<not> bindable b"
  then show "load_data impl f b w = (Inl InvalidInputException, create_pokedex w)"
    by (simp add: load_data_lab lab_load_data_unbound)
next
  assume a: "files w f = Some rs \<and> in_integer b \<and> (\<forall>r \<in> set rs. locator_ok (src_url r))"
  then have ok: "list_all (\<lambda>r. locator_ok (src_url r)) rs" by (simp add: list_all_iff)
  from a ok show "pokedex (snd (load_data impl f b w)) =
      Some (pokedex_rows w @ map (loaded_row b) rs)"
    by (simp add: load_data_lab lab_load_data_appends)
  assume "metadata w \<noteq> None"
  then obtain mrows where "metadata w = Some mrows" by blast
  with a ok show "fst (load_data impl f b w) = Inr ()"
    by (simp add: load_data_lab lab_load_data_returns)
next
  assume "src_url r = None"
  then show "locator_ok (src_url r)" by (simp add: locator_ok_def)
next
  assume "src_url r = None"
  then show "pokemon_id (loaded_row b r) = None" by (simp add: loaded_row_def embedded_id_def)
qed

theorem load_data_all_or_nothing_witness:
  "files odd_files ''bad.parquet'' =
     Some [bulbasaur, \<lparr>src_name = Some ''bad'',
                       src_url = Some ''https://pokeapi.co/api/v2/pokemon/''\<rparr>] \<and>
   \<not> matches ''https://pokeapi.co/api/v2/pokemon/'' \<and>
   bindable 10 \<and>
   load_data Lab ''bad.parquet'' 10 odd_files = (Inl ConversionException, odd_files) \<and>
   \<not> bindable (2 ^ 200) \<and>
   load_data Lab ''bad.parquet'' (2 ^ 200) odd_files = (Inl InvalidInputException, odd_files) \<and>
   load_data Lab ''a.parquet'' (2 ^ 200) two_files =
     (Inl InvalidInputException, two_files\<lparr>pokedex := Some []\<rparr>) \<and>
   pokedex_rows (snd (load_data Lab ''bad.parquet'' 10 odd_files)) = [] \<and>
   metadata (snd (load_data Lab ''bad.parquet'' 10 odd_files)) = Some [] \<and>
   files two_files ''a.parquet'' = Some [bulbasaur] \<and> in_integer 10 \<and>
   locator_ok (src_url bulbasaur) \<and>
   pokedex (snd (load_data Solutions ''a.parquet'' 10 two_files)) =
     Some [\<lparr>row_last_id = Some 10, pokemon_id = Some 1, name = Some ''bulbasaur'',
            url = Some ''https://pokeapi.co/api/v2/pokemon/1/''\<rparr>] \<and>
   fst (load_data Solutions ''a.parquet'' 10 two_files) = Inr () \<and>
   locator_ok None \<and>
   pokemon_id (loaded_row 10 \<lparr>src_name = Some ''null'', src_url = None\<rparr>) = None"
proof -
  let ?bad = "\<lparr>src_name = Some ''bad'', src_url = Some ''https://pokeapi.co/api/v2/pokemon/''\<rparr>"
  let ?null = "\<lparr>src_name = Some ''null'', src_url = None\<rparr>"
  have f: "files odd_files ''bad.parquet'' = Some [bulbasaur, ?bad]"
    by (simp add: odd_files_simps)
  have nm: "\<not> matches ''https://pokeapi.co/api/v2/pokemon/''"
    by (simp add: matches_iff regexp_extract_bad del: regexp_extract.simps)
  have m: "?bad \<in> set [bulbasaur, ?bad]" by simp
  have u: "src_url ?bad = Some ''https://pokeapi.co/api/v2/pokemon/''" by simp
  from load_data_all_or_nothing [of odd_files "''bad.parquet''" "[bulbasaur, ?bad]" ?bad
      "''https://pokeapi.co/api/v2/pokemon/''" Lab 10] f nm m u
  have c1: "load_data Lab ''bad.parquet'' 10 odd_files =
              (Inl (if bindable 10 then ConversionException else InvalidInputException),
               create_pokedex odd_files)"
    and c2: "pokedex_rows (snd (load_data Lab ''bad.parquet'' 10 odd_files)) =
               pokedex_rows odd_files"
    and c3: "metadata (snd (load_data Lab ''bad.parquet'' 10 odd_files)) = metadata odd_files"
    by blast+
  have g: "files two_files ''a.parquet'' = Some [bulbasaur]" by (simp add: two_files_simps)
  have i: "in_integer 10" by (simp add: in_integer_def)
  have ok: "\<forall>r \<in> set [bulbasaur]. locator_ok (src_url r)" by (simp add: locator_ok_examples)
  have md: "metadata two_files \<noteq> None" by (simp add: two_files_simps)
  from load_data_all_or_nothing [of two_files "''a.parquet''" "[bulbasaur]" _ _ Solutions 10]
    g i ok md
  have c4: "pokedex (snd (load_data Solutions ''a.parquet'' 10 two_files)) =
              Some (pokedex_rows two_files @ map (loaded_row 10) [bulbasaur])"
    and c5: "fst (load_data Solutions ''a.parquet'' 10 two_files) = Inr ()"
    by blast+
  have n: "src_url ?null = None" by simp
  from load_data_all_or_nothing [of _ _ _ ?null _ _ 10] n
  have c6: "locator_ok (src_url ?null)" and c7: "pokemon_id (loaded_row 10 ?null) = None"
    by blast+
  from c4 have c4': "pokedex (snd (load_data Solutions ''a.parquet'' 10 two_files)) =
     Some [\<lparr>row_last_id = Some 10, pokemon_id = Some 1, name = Some ''bulbasaur'',
            url = Some ''https://pokeapi.co/api/v2/pokemon/1/''\<rparr>]"
    by (simp only: two_files_simps loaded_row_examples list.map append_Nil)
  have b10: "bindable 10" by (simp add: bindable_def)
  have b200: "\<not> bindable (2 ^ 200)" by (simp add: bindable_def)
  from c1 b10 have c1': "load_data Lab ''bad.parquet'' 10 odd_files =
      (Inl ConversionException, odd_files)"
    by (simp only: odd_files_simps if_True)
  from load_data_all_or_nothing [where impl = Lab and f = "''bad.parquet''" and b = "2 ^ 200"
      and w = odd_files] b200
  have c8: "load_data Lab ''bad.parquet'' (2 ^ 200) odd_files =
      (Inl InvalidInputException, create_pokedex odd_files)" by blast
  then have c8': "load_data Lab ''bad.parquet'' (2 ^ 200) odd_files =
      (Inl InvalidInputException, odd_files)" by (simp only: odd_files_simps)
  from load_data_all_or_nothing [where impl = Lab and f = "''a.parquet''" and b = "2 ^ 200"
      and w = two_files] b200
  have c9: "load_data Lab ''a.parquet'' (2 ^ 200) two_files =
      (Inl InvalidInputException, create_pokedex two_files)" by blast
  then have c9': "load_data Lab ''a.parquet'' (2 ^ 200) two_files =
      (Inl InvalidInputException, two_files\<lparr>pokedex := Some []\<rparr>)"
    by (simp add: create_pokedex_def two_files_simps del: load_data.simps)
  from c2 have c2': "pokedex_rows (snd (load_data Lab ''bad.parquet'' 10 odd_files)) = []"
    by (simp only: odd_files_simps)
  from c3 have c3': "metadata (snd (load_data Lab ''bad.parquet'' 10 odd_files)) = Some []"
    by (simp only: odd_files_simps)
  from c6 have c6': "locator_ok None" by simp
  from f nm b10 b200 c1' c8' c9' c2' c3' g i ok c4' c5 c6' c7 show ?thesis
    by (simp del: load_data.simps)
qed

text \<open>
  C3 as the specification words it fails on a file whose only locator matches the pattern with
  the number 99999999999: the cast to \<^verbatim>\<open>INTEGER\<close> is refused, the load fails and no row
  is appended, although every locator of the file matches.
\<close>

theorem load_data_big_id_counterexample:
  "files odd_files ''big.parquet'' =
     Some [\<lparr>src_name = Some ''big'',
            src_url = Some ''https://pokeapi.co/api/v2/pokemon/99999999999/''\<rparr>] \<and>
   matches ''https://pokeapi.co/api/v2/pokemon/99999999999/'' \<and>
   in_integer 10 \<and>
   load_data Lab ''big.parquet'' 10 odd_files = (Inl ConversionException, odd_files) \<and>
   load_data Solutions ''big.parquet'' 10 odd_files = (Inl ConversionException, odd_files) \<and>
   pokedex odd_files = Some []"
proof -
  have m: "matches ''https://pokeapi.co/api/v2/pokemon/99999999999/''"
    by (simp add: matches_iff regexp_extract_big del: regexp_extract.simps)
  have n: "\<not> locator_ok (Some ''https://pokeapi.co/api/v2/pokemon/99999999999/'')"
    by (simp add: locator_ok_def regexp_extract_big nat_of_digits_def digit_val_def
        del: regexp_extract.simps)
  have l: "lab_load_data ''big.parquet'' 10 odd_files = (Inl ConversionException, odd_files)"
    using n by (simp add: lab_load_data_eq bindable_def odd_files_simps)
  from m l show ?thesis
    by (simp add: odd_files_simps in_integer_def load_data_same del: regexp_extract.simps)
qed

text \<open>
  C4. Whatever rows \<^verbatim>\<open>pokedex\<close> holds, \<^verbatim>\<open>transform_data\<close> succeeds and replaces
  \<^verbatim>\<open>pokemon_stats\<close> by one row made from all of them: their number, and the least and the
  greatest id that is not NULL (NULL when there is none); nothing else changes. In
  particular, when two files of \<open>n1\<close> and \<open>n2\<close> rows are loaded into an empty table, the
  count is \<open>n1 + n2\<close> and the least and greatest id are those of all the ids embedded in
  the two files (whether or not ids repeat).
\<close>

theorem transform_data_summary:
  "(pokedex w = Some rows \<longrightarrow>
      (\<exists>r. fst (transform_data impl w) = Inr r) \<and>
      snd (transform_data impl w) =
        w\<lparr>pokemon_stats :=
             Some [\<lparr>total_pokemon = int (length rows),
                    first_id = (if stored_ids rows = {} then None
                                else Some (Min (stored_ids rows))),
                    stats_last_id = (if stored_ids rows = {} then None
                                     else Some (Max (stored_ids rows)))\<rparr>]\<rparr>) \<and>
   (pokedex_rows w0 = [] \<and> files w0 f1 = Some rs1 \<and> files w0 f2 = Some rs2 \<and>
    load_data impl f1 b1 w0 = (Inr u1, w1) \<and> load_data impl f2 b2 w1 = (Inr u2, w2) \<longrightarrow>
      (\<exists>r. fst (transform_data impl w2) = Inr r) \<and>
      pokemon_stats (snd (transform_data impl w2)) =
        Some [\<lparr>total_pokemon = int (length rs1) + int (length rs2),
               first_id = (if batch_ids rs1 \<union> batch_ids rs2 = {} then None
                           else Some (Min (batch_ids rs1 \<union> batch_ids rs2))),
               stats_last_id = (if batch_ids rs1 \<union> batch_ids rs2 = {} then None
                                else Some (Max (batch_ids rs1 \<union> batch_ids rs2)))\<rparr>])"
proof (intro conjI impI)
  assume "pokedex w = Some rows"
  then show "\<exists>r. fst (transform_data impl w) = Inr r"
    by (simp add: transform_data_eq)
next
  assume "pokedex w = Some rows"
  then show "snd (transform_data impl w) =
        w\<lparr>pokemon_stats :=
             Some [\<lparr>total_pokemon = int (length rows),
                    first_id = (if stored_ids rows = {} then None
                                else Some (Min (stored_ids rows))),
                    stats_last_id = (if stored_ids rows = {} then None
                                     else Some (Max (stored_ids rows)))\<rparr>]\<rparr>"
    by (simp only: transform_data_eq stored_ids_Min stored_ids_Max option.case snd_conv)
next
  assume a: "pokedex_rows w0 = [] \<and> files w0 f1 = Some rs1 \<and> files w0 f2 = Some rs2 \<and>
    load_data impl f1 b1 w0 = (Inr u1, w1) \<and> load_data impl f2 b2 w1 = (Inr u2, w2)"
  from a have l1: "lab_load_data f1 b1 w0 = (Inr u1, w1)" by (simp add: load_data_lab)
  from a have l2: "lab_load_data f2 b2 w1 = (Inr u2, w2)" by (simp add: load_data_lab)
  from lab_load_data_success [OF l1] a
  have p1: "pokedex w1 = Some (map (loaded_row b1) rs1)" and f1: "files w1 = files w0"
    by auto
  from p1 have r1: "pokedex_rows w1 = map (loaded_row b1) rs1" by (simp add: pokedex_rows_def)
  from lab_load_data_success [OF l2] f1 a r1
  have p2: "pokedex w2 = Some (map (loaded_row b1) rs1 @ map (loaded_row b2) rs2)"
    by auto
  have ids: "stored_ids (map (loaded_row b1) rs1 @ map (loaded_row b2) rs2)
               = batch_ids rs1 \<union> batch_ids rs2"
    by (simp add: stored_ids_append stored_ids_loaded)
  show "\<exists>r. fst (transform_data impl w2) = Inr r"
    using p2 by (simp add: transform_data_eq)
  show "pokemon_stats (snd (transform_data impl w2)) =
        Some [\<lparr>total_pokemon = int (length rs1) + int (length rs2),
               first_id = (if batch_ids rs1 \<union> batch_ids rs2 = {} then None
                           else Some (Min (batch_ids rs1 \<union> batch_ids rs2))),
               stats_last_id = (if batch_ids rs1 \<union> batch_ids rs2 = {} then None
                                else Some (Max (batch_ids rs1 \<union> batch_ids rs2)))\<rparr>]"
  proof -
    let ?rows = "map (loaded_row b1) rs1 @ map (loaded_row b2) rs2"
    have "pokemon_stats (snd (transform_data impl w2)) =
            Some [\<lparr>total_pokemon = int (length ?rows),
                   first_id = sql_min (map pokemon_id ?rows),
                   stats_last_id = sql_max (map pokemon_id ?rows)\<rparr>]"
      using p2 by (simp add: transform_data_eq)
    also have "int (length ?rows) = int (length rs1) + int (length rs2)" by simp
    finally show ?thesis by (simp only: stored_ids_Min stored_ids_Max ids)
  qed
qed

theorem transform_data_summary_witness:
  "pokedex loaded_twice = Some [loaded_row 10 bulbasaur, loaded_row 20 ivysaur] \<and>
   total_pokemon (hd (the (pokemon_stats (snd (transform_data Solutions loaded_twice))))) = 2 \<and>
   pokedex_rows two_files = [] \<and>
   files two_files ''a.parquet'' = Some [bulbasaur] \<and>
   files two_files ''b.parquet'' = Some [ivysaur] \<and>
   load_data Lab ''a.parquet'' 10 two_files = (Inr (), loaded_once) \<and>
   load_data Lab ''b.parquet'' 20 loaded_once = (Inr (), loaded_twice) \<and>
   pokemon_stats (snd (transform_data Lab loaded_twice)) =
     Some [\<lparr>total_pokemon = 2, first_id = Some 1, stats_last_id = Some 2\<rparr>]"
proof -
  have h1: "pokedex loaded_twice = Some [loaded_row 10 bulbasaur, loaded_row 20 ivysaur]"
    by (simp add: loaded_twice_eq)
  have h2: "pokedex_rows two_files = [] \<and>
    files two_files ''a.parquet'' = Some [bulbasaur] \<and>
    files two_files ''b.parquet'' = Some [ivysaur] \<and>
    load_data Lab ''a.parquet'' 10 two_files = (Inr (), loaded_once) \<and>
    load_data Lab ''b.parquet'' 20 loaded_once = (Inr (), loaded_twice)"
    using load_once load_twice
    by (simp only: two_files_simps load_data.simps loaded_once_eq [symmetric]
        loaded_twice_eq [symmetric] simp_thms)
  have a: "snd (transform_data Solutions loaded_twice) =
        loaded_twice\<lparr>pokemon_stats :=
             Some [\<lparr>total_pokemon = int (length [loaded_row 10 bulbasaur, loaded_row 20 ivysaur]),
                    first_id = (if stored_ids [loaded_row 10 bulbasaur, loaded_row 20 ivysaur] = {} then None
                                else Some (Min (stored_ids [loaded_row 10 bulbasaur, loaded_row 20 ivysaur]))),
                    stats_last_id = (if stored_ids [loaded_row 10 bulbasaur, loaded_row 20 ivysaur] = {} then None
                                     else Some (Max (stored_ids [loaded_row 10 bulbasaur, loaded_row 20 ivysaur])))\<rparr>]\<rparr>"
    using transform_data_summary [of loaded_twice "[loaded_row 10 bulbasaur, loaded_row 20 ivysaur]"
        Solutions] h1 by blast
  have b: "pokemon_stats (snd (transform_data Lab loaded_twice)) =
        Some [\<lparr>total_pokemon = int (length [bulbasaur]) + int (length [ivysaur]),
               first_id = (if batch_ids [bulbasaur] \<union> batch_ids [ivysaur] = {} then None
                           else Some (Min (batch_ids [bulbasaur] \<union> batch_ids [ivysaur]))),
               stats_last_id = (if batch_ids [bulbasaur] \<union> batch_ids [ivysaur] = {} then None
                                else Some (Max (batch_ids [bulbasaur] \<union> batch_ids [ivysaur])))\<rparr>]"
    using transform_data_summary [of _ _ Lab two_files "''a.parquet''" "[bulbasaur]"
        "''b.parquet''" "[ivysaur]" 10 "()" loaded_once 20 "()" loaded_twice] h2 by blast
  from a have a': "total_pokemon (hd (the (pokemon_stats (snd (transform_data Solutions loaded_twice))))) = 2"
    by simp
  from b have b': "pokemon_stats (snd (transform_data Lab loaded_twice)) =
     Some [\<lparr>total_pokemon = 2, first_id = Some 1, stats_last_id = Some 2\<rparr>]"
    by (simp add: batch_ids_examples)
  from h1 h2 a' b' show ?thesis by blast
qed

text \<open>
  C5. Round trip: after a successful \<^verbatim>\<open>load_data\<close> the table is the old rows followed by
  one row per row of the file, in the file's order. Each new row keeps the file row's
  name and locator, is tagged with the batch offset, and its \<^verbatim>\<open>pokemon_id\<close> is the integer
  embedded in its own locator: the locator reads \<open>pre @ ''/pokemon/'' @ ds @ ''/'' @ post\<close>
  with \<open>ds\<close> a run of digits, \<open>ds\<close> is group 1 of the leftmost match, and the id is the
  decimal value of \<open>ds\<close>. A NULL locator has a NULL id.
\<close>

theorem load_data_round_trip:
  "load_data impl f b w = (Inr u, w') \<and> files w f = Some rs \<longrightarrow>
     (\<exists>new. pokedex w' = Some (pokedex_rows w @ new) \<and> length new = length rs \<and>
        (\<forall>i < length rs.
           url (new ! i) = src_url (rs ! i) \<and> name (new ! i) = src_name (rs ! i) \<and>
           row_last_id (new ! i) = Some b \<and>
           (src_url (rs ! i) = None \<longrightarrow> pokemon_id (new ! i) = None) \<and>
           (\<forall>s. src_url (rs ! i) = Some s \<longrightarrow>
              (\<exists>pre ds post. s = pre @ ''/pokemon/'' @ ds @ ''/'' @ post \<and> ds \<noteq> [] \<and>
                 list_all is_digit ds \<and> ds = regexp_extract s \<and>
                 pokemon_id (new ! i) = Some (int (nat_of_digits ds))))))"
proof
  assume a: "load_data impl f b w = (Inr u, w') \<and> files w f = Some rs"
  then have "lab_load_data f b w = (Inr u, w')" by (simp add: load_data_lab)
  from lab_load_data_success [OF this] a
  have ok: "rs = [] \<or> list_all (\<lambda>r. locator_ok (src_url r)) rs"
    and p: "pokedex w' = Some (pokedex_rows w @ map (loaded_row b) rs)"
    by auto
  have each: "url (map (loaded_row b) rs ! i) = src_url (rs ! i) \<and>
           name (map (loaded_row b) rs ! i) = src_name (rs ! i) \<and>
           row_last_id (map (loaded_row b) rs ! i) = Some b \<and>
           (src_url (rs ! i) = None \<longrightarrow> pokemon_id (map (loaded_row b) rs ! i) = None) \<and>
           (\<forall>s. src_url (rs ! i) = Some s \<longrightarrow>
              (\<exists>pre ds post. s = pre @ ''/pokemon/'' @ ds @ ''/'' @ post \<and> ds \<noteq> [] \<and>
                 list_all is_digit ds \<and> ds = regexp_extract s \<and>
                 pokemon_id (map (loaded_row b) rs ! i) = Some (int (nat_of_digits ds))))"
    if i: "i < length rs" for i
  proof -
    from i ok have "locator_ok (src_url (rs ! i))" by (auto simp add: list_all_length)
    then have "\<forall>s. src_url (rs ! i) = Some s \<longrightarrow>
              (\<exists>pre ds post. s = pre @ ''/pokemon/'' @ ds @ ''/'' @ post \<and> ds \<noteq> [] \<and>
                 list_all is_digit ds \<and> ds = regexp_extract s \<and>
                 embedded_id (src_url (rs ! i)) = Some (int (nat_of_digits ds)))"
      using locator_ok_embedded by auto
    with i show ?thesis by (simp add: loaded_row_def embedded_id_def)
  qed
  show "\<exists>new. pokedex w' = Some (pokedex_rows w @ new) \<and> length new = length rs \<and>
        (\<forall>i < length rs.
           url (new ! i) = src_url (rs ! i) \<and> name (new ! i) = src_name (rs ! i) \<and>
           row_last_id (new ! i) = Some b \<and>
           (src_url (rs ! i) = None \<longrightarrow> pokemon_id (new ! i) = None) \<and>
           (\<forall>s. src_url (rs ! i) = Some s \<longrightarrow>
              (\<exists>pre ds post. s = pre @ ''/pokemon/'' @ ds @ ''/'' @ post \<and> ds \<noteq> [] \<and>
                 list_all is_digit ds \<and> ds = regexp_extract s \<and>
                 pokemon_id (new ! i) = Some (int (nat_of_digits ds)))))"
    by (rule exI [of _ "map (loaded_row b) rs"]) (use p each in simp)
qed

theorem load_data_round_trip_witness:
  "load_data Lab ''b.parquet'' 20 loaded_once = (Inr (), loaded_twice) \<and>
   files loaded_once ''b.parquet'' = Some [ivysaur] \<and>
   src_url ivysaur = Some ''https://pokeapi.co/api/v2/pokemon/2/'' \<and>
   regexp_extract ''https://pokeapi.co/api/v2/pokemon/2/'' = ''2'' \<and>
   (\<exists>new. pokedex loaded_twice = Some (pokedex_rows loaded_once @ new) \<and> length new = 1 \<and>
      url (new ! 0) = Some ''https://pokeapi.co/api/v2/pokemon/2/'' \<and>
      row_last_id (new ! 0) = Some 20 \<and> pokemon_id (new ! 0) = Some 2)"
proof -
  have h1: "load_data Lab ''b.parquet'' 20 loaded_once = (Inr (), loaded_twice)"
    using load_twice by (simp only: load_data.simps loaded_twice_eq [symmetric])
  have h2: "files loaded_once ''b.parquet'' = Some [ivysaur]"
    by (simp add: loaded_once_eq two_files_simps)
  have h3: "src_url ivysaur = Some ''https://pokeapi.co/api/v2/pokemon/2/''"
    by (simp add: ivysaur_def)
  from load_data_round_trip [of Lab "''b.parquet''" 20 loaded_once "()" loaded_twice "[ivysaur]"]
    h1 h2
  obtain new where n: "pokedex loaded_twice = Some (pokedex_rows loaded_once @ new)"
    "length new = length [ivysaur]"
    and e: "\<forall>i < length [ivysaur].
           url (new ! i) = src_url ([ivysaur] ! i) \<and> name (new ! i) = src_name ([ivysaur] ! i) \<and>
           row_last_id (new ! i) = Some 20 \<and>
           (src_url ([ivysaur] ! i) = None \<longrightarrow> pokemon_id (new ! i) = None) \<and>
           (\<forall>s. src_url ([ivysaur] ! i) = Some s \<longrightarrow>
              (\<exists>pre ds post. s = pre @ ''/pokemon/'' @ ds @ ''/'' @ post \<and> ds \<noteq> [] \<and>
                 list_all is_digit ds \<and> ds = regexp_extract s \<and>
                 pokemon_id (new ! i) = Some (int (nat_of_digits ds))))"
    by blast
  from e have e0: "url (new ! 0) = src_url ivysaur" "row_last_id (new ! 0) = Some 20"
    and e1: "\<forall>s. src_url ivysaur = Some s \<longrightarrow>
              (\<exists>pre ds post. s = pre @ ''/pokemon/'' @ ds @ ''/'' @ post \<and> ds \<noteq> [] \<and>
                 list_all is_digit ds \<and> ds = regexp_extract s \<and>
                 pokemon_id (new ! 0) = Some (int (nat_of_digits ds)))"
    by simp_all
  from e1 h3 have "pokemon_id (new ! 0) =
      Some (int (nat_of_digits (regexp_extract ''https://pokeapi.co/api/v2/pokemon/2/'')))"
    by blast
  then have id: "pokemon_id (new ! 0) = Some 2"
    by (simp add: regexp_extract_ivysaur nat_of_digits_def digit_val_def
        del: regexp_extract.simps)
  from n e0 h3 id have "\<exists>new. pokedex loaded_twice = Some (pokedex_rows loaded_once @ new) \<and>
      length new = 1 \<and>
      url (new ! 0) = Some ''https://pokeapi.co/api/v2/pokemon/2/'' \<and>
      row_last_id (new ! 0) = Some 20 \<and> pokemon_id (new ! 0) = Some 2"
    by (intro exI [of _ new]) simp
  with h1 h2 h3 regexp_extract_ivysaur show ?thesis by blast
qed

text \<open>
  C6 (amended). In a run of the driver that completes, with \<open>c\<close> the checkpoint at the
  start and \<open>L\<close> the driver's limit (30 in \<^verbatim>\<open>lab-m1w1.py\<close>, 10 in \<^verbatim>\<open>solutions.py\<close>): the two
  pages are fetched at offsets \<open>c\<close> and \<open>c + L\<close> and written to the files named after \<open>c\<close>
  and \<open>c + L\<close>; the rows loaded from the first page's file are recorded under \<open>c + L\<close> and
  those from the second under \<open>c + 2 * L\<close>. The offset recorded against a page's rows is
  the next offset that \<^verbatim>\<open>extract_data\<close> returned for that page, the offset used to fetch it
  plus the limit, and never the fetch offset itself.
\<close>

theorem main_threads_offsets:
  "main impl api w = (Inr u, w') \<longrightarrow>
     (\<exists>page1 page2.
        api (driver_limit impl) (checkpoint_value w) = Results page1 \<and>
        api (driver_limit impl) (checkpoint_value w + driver_limit impl) = Results page2 \<and>
        requests w' = requests w @
          [(driver_limit impl, checkpoint_value w),
           (driver_limit impl, checkpoint_value w + driver_limit impl)] \<and>
        files w' (file_name impl (checkpoint_value w)) = Some page1 \<and>
        files w' (file_name impl (checkpoint_value w + driver_limit impl)) = Some page2 \<and>
        pokedex w' =
          Some (pokedex_rows w
                @ map (loaded_row (checkpoint_value w + driver_limit impl)) page1
                @ map (loaded_row (checkpoint_value w + 2 * driver_limit impl)) page2) \<and>
        checkpoint_value w + driver_limit impl \<noteq> checkpoint_value w)"
proof
  assume "main impl api w = (Inr u, w')"
  from main_run [OF this] obtain page1 page2 where
    "api (driver_limit impl) (checkpoint_value w) = Results page1"
    "api (driver_limit impl) (checkpoint_value w + driver_limit impl) = Results page2"
    "requests w' = requests w @
       [(driver_limit impl, checkpoint_value w),
        (driver_limit impl, checkpoint_value w + driver_limit impl)]"
    "files w' (file_name impl (checkpoint_value w)) = Some page1"
    "files w' (file_name impl (checkpoint_value w + driver_limit impl)) = Some page2"
    "pokedex w' =
       Some (pokedex_rows w
             @ map (loaded_row (checkpoint_value w + driver_limit impl)) page1
             @ map (loaded_row (checkpoint_value w + 2 * driver_limit impl)) page2)"
    by blast
  moreover have "checkpoint_value w + driver_limit impl \<noteq> checkpoint_value w"
    using driver_limit_nonzero [of impl] by simp
  ultimately show "\<exists>page1 page2.
        api (driver_limit impl) (checkpoint_value w) = Results page1 \<and>
        api (driver_limit impl) (checkpoint_value w + driver_limit impl) = Results page2 \<and>
        requests w' = requests w @
          [(driver_limit impl, checkpoint_value w),
           (driver_limit impl, checkpoint_value w + driver_limit impl)] \<and>
        files w' (file_name impl (checkpoint_value w)) = Some page1 \<and>
        files w' (file_name impl (checkpoint_value w + driver_limit impl)) = Some page2 \<and>
        pokedex w' =
          Some (pokedex_rows w
                @ map (loaded_row (checkpoint_value w + driver_limit impl)) page1
                @ map (loaded_row (checkpoint_value w + 2 * driver_limit impl)) page2) \<and>
        checkpoint_value w + driver_limit impl \<noteq> checkpoint_value w"
    by blast
qed

theorem main_threads_offsets_witness:
  "main Lab example_api fresh = (Inr (), snd (main Lab example_api fresh)) \<and>
   checkpoint_value fresh = 0 \<and> driver_limit Lab = 30 \<and>
   requests (snd (main Lab example_api fresh)) = [(30, 0), (30, 30)] \<and>
   files (snd (main Lab example_api fresh)) ''pokedex_000.parquet'' = Some [bulbasaur, ivysaur] \<and>
   files (snd (main Lab example_api fresh)) ''pokedex_030.parquet'' = Some [nidoqueen] \<and>
   pokedex (snd (main Lab example_api fresh)) =
     Some [loaded_row 30 bulbasaur, loaded_row 30 ivysaur, loaded_row 60 nidoqueen]"
proof -
  have h: "main Lab example_api fresh = (Inr (), snd (main Lab example_api fresh))"
    by (simp add: main_lab_example del: main.simps)
  have c: "checkpoint_value fresh = 0" by (simp add: checkpoint_value_cases fresh_simps)
  from main_threads_offsets [of Lab example_api fresh "()" "snd (main Lab example_api fresh)"] h
  obtain page1 page2 where
    a1: "example_api (driver_limit Lab) (checkpoint_value fresh) = Results page1" and
    a2: "example_api (driver_limit Lab) (checkpoint_value fresh + driver_limit Lab) =
           Results page2" and
    rq: "requests (snd (main Lab example_api fresh)) = requests fresh @
          [(driver_limit Lab, checkpoint_value fresh),
           (driver_limit Lab, checkpoint_value fresh + driver_limit Lab)]" and
    f1: "files (snd (main Lab example_api fresh)) (file_name Lab (checkpoint_value fresh)) =
           Some page1" and
    f2: "files (snd (main Lab example_api fresh))
           (file_name Lab (checkpoint_value fresh + driver_limit Lab)) = Some page2" and
    p: "pokedex (snd (main Lab example_api fresh)) =
          Some (pokedex_rows fresh
                @ map (loaded_row (checkpoint_value fresh + driver_limit Lab)) page1
                @ map (loaded_row (checkpoint_value fresh + 2 * driver_limit Lab)) page2)"
    by blast
  from a1 c have p1: "page1 = [bulbasaur, ivysaur]" by (simp add: example_api_def)
  from a2 c have p2: "page2 = [nidoqueen]" by (simp add: example_api_def)
  from rq c have rq': "requests (snd (main Lab example_api fresh)) = [(30, 0), (30, 30)]"
    by (simp add: fresh_simps del: main.simps)
  from f1 c p1 have f1': "files (snd (main Lab example_api fresh)) ''pokedex_000.parquet'' =
      Some [bulbasaur, ivysaur]"
    by (simp add: file_name_examples del: main.simps)
  from f2 c p2 have f2': "files (snd (main Lab example_api fresh)) ''pokedex_030.parquet'' =
      Some [nidoqueen]"
    by (simp add: file_name_examples del: main.simps)
  from p c p1 p2 have p': "pokedex (snd (main Lab example_api fresh)) =
     Some [loaded_row 30 bulbasaur, loaded_row 30 ivysaur, loaded_row 60 nidoqueen]"
    by (simp add: fresh_simps del: main.simps)
  from h c rq' f1' f2' p' show ?thesis by simp
qed

text \<open>
  C6 as the specification words it fails on the first run of \<^verbatim>\<open>lab-m1w1.py\<close> against the example
  API: the first page is fetched at offset 0 and written to \<^verbatim>\<open>pokedex_000.parquet\<close>, and its
  two rows are recorded under 30; the second page is fetched at offset 30 and its row is
  recorded under 60.
\<close>

theorem main_offsets_counterexample:
  "fst (main Lab example_api fresh) = Inr () \<and>
   requests (snd (main Lab example_api fresh)) = [(30, 0), (30, 30)] \<and>
   example_api 30 0 = Results [bulbasaur, ivysaur] \<and>
   files (snd (main Lab example_api fresh)) ''pokedex_000.parquet'' = Some [bulbasaur, ivysaur] \<and>
   map row_last_id (pokedex_rows (snd (main Lab example_api fresh))) =
     [Some 30, Some 30, Some 60] \<and>
   map pokemon_id (pokedex_rows (snd (main Lab example_api fresh))) =
     [Some 1, Some 2, Some 31]"
  by (simp add: main_lab_example example_api_def pokedex_rows_def loaded_row_def
      embedded_id_examples embedded_id_more del: main.simps)

text \<open>
  C7. Whatever \<^verbatim>\<open>extract_data\<close> is called with and however it ends (a result, a failed
  request or an empty page), the rows of the checkpoint table are the rows it had before,
  the value a checkpoint read returns is the same, and the other two tables are untouched.
  The table itself is created, empty, when it did not exist; a table that existed is left
  exactly as it was.
\<close>

theorem extract_data_keeps_checkpoint:
  "metadata (snd (extract_data impl api limit last_id w)) = Some (metadata_rows w) \<and>
   metadata_rows (snd (extract_data impl api limit last_id w)) = metadata_rows w \<and>
   checkpoint_value (snd (extract_data impl api limit last_id w)) = checkpoint_value w \<and>
   (metadata w \<noteq> None \<longrightarrow> metadata (snd (extract_data impl api limit last_id w)) = metadata w) \<and>
   pokedex (snd (extract_data impl api limit last_id w)) = pokedex w \<and>
   pokemon_stats (snd (extract_data impl api limit last_id w)) = pokemon_stats w"
proof -
  have m: "metadata (snd (extract_data impl api limit last_id w)) = Some (metadata_rows w)"
    by (simp add: extract_data_eq create_metadata_simps split: response.splits list.splits)
  then have r: "metadata_rows (snd (extract_data impl api limit last_id w)) = metadata_rows w"
    by (simp add: metadata_rows_def)
  then have c: "checkpoint_value (snd (extract_data impl api limit last_id w)) = checkpoint_value w"
    by (simp add: checkpoint_value_def)
  have e: "metadata w \<noteq> None \<longrightarrow> metadata (snd (extract_data impl api limit last_id w)) = metadata w"
    using m by (auto simp add: metadata_rows_def)
  have p: "pokedex (snd (extract_data impl api limit last_id w)) = pokedex w"
    by (simp add: extract_data_eq create_metadata_simps split: response.splits list.splits)
  have s: "pokemon_stats (snd (extract_data impl api limit last_id w)) = pokemon_stats w"
    by (simp add: extract_data_eq create_metadata_simps split: response.splits list.splits)
  from m r c e p s show ?thesis by blast
qed

theorem extract_data_keeps_checkpoint_witness:
  "metadata fresh = None \<and>
   metadata (snd (extract_data Lab example_api 30 None fresh)) = Some [] \<and>
   checkpoint_value (snd (extract_data Lab example_api 30 None fresh)) = 0 \<and>
   metadata loaded_twice \<noteq> None \<and>
   metadata (snd (extract_data Solutions example_api 10 None loaded_twice)) = Some [Some 20] \<and>
   metadata (snd (extract_data Solutions example_api 10 (Some 0) loaded_twice)) = Some [Some 20] \<and>
   checkpoint_value (snd (extract_data Solutions example_api 10 (Some 0) loaded_twice)) = 20"
proof -
  have h1: "metadata fresh = None" by (simp add: fresh_simps)
  have h2: "metadata loaded_twice = Some [Some 20]" by (simp add: loaded_twice_eq)
  have v0: "checkpoint_value fresh = 0" by (simp add: checkpoint_value_cases fresh_simps)
  have v2: "checkpoint_value loaded_twice = 20" using h2 by (simp add: checkpoint_value_cases)
  note t1 = extract_data_keeps_checkpoint [of Lab example_api 30 None fresh]
  note t2 = extract_data_keeps_checkpoint [of Solutions example_api 10 None loaded_twice]
  note t3 = extract_data_keeps_checkpoint [of Solutions example_api 10 "Some 0" loaded_twice]
  from t1 have c1: "metadata (snd (extract_data Lab example_api 30 None fresh)) = Some []"
    by (simp add: fresh_simps)
  from t1 v0 have c2: "checkpoint_value (snd (extract_data Lab example_api 30 None fresh)) = 0"
    by simp
  from t2 h2 have c3: "metadata (snd (extract_data Solutions example_api 10 None loaded_twice)) =
      Some [Some 20]" by (simp add: metadata_rows_def)
  from t3 h2 have c4: "metadata (snd (extract_data Solutions example_api 10 (Some 0) loaded_twice)) =
      Some [Some 20]" by (simp add: metadata_rows_def)
  from t3 v2 have c5: "checkpoint_value (snd (extract_data Solutions example_api 10 (Some 0)
      loaded_twice)) = 20" by simp
  from h1 h2 c1 c2 c3 c4 c5 show ?thesis by simp
qed

text \<open>
  C8 (amended). \<^verbatim>\<open>extract_data\<close> writes the page to the file it names in its result,
  \<open>pokedex_\<close>, the resolved offset through \<^verbatim>\<open>zfill\<close>, \<open>.parquet\<close>: the offset can be read
  back from the name, so two different offsets never give the same name (in one file or
  across the two). \<^verbatim>\<open>zfill\<close> pads to at least 3 characters in \<^verbatim>\<open>lab-m1w1.py\<close> and 10 in
  \<^verbatim>\<open>solutions.py\<close> and never cuts: the names have one length for offsets from 0 up to
  \<open>10 ^ width - 1\<close> and are longer from \<open>10 ^ width\<close> on.
\<close>

theorem file_name_properties:
  "(extract_data impl api limit last_id w = (Inr (file_path, next_offset), w') \<longrightarrow>
      file_path = file_name impl (resolved_offset last_id w) \<and>
      files w' file_path = Some (case api limit (resolved_offset last_id w) of
                                   Results page \<Rightarrow> page | Failed \<Rightarrow> [])) \<and>
   (\<exists>z. file_name impl off = ''pokedex_'' @ z @ ''.parquet'' \<and> parse_int z = off \<and>
        pad_width impl \<le> length z) \<and>
   (file_name impl1 off1 = file_name impl2 off2 \<longrightarrow> off1 = off2) \<and>
   length (file_name impl off) = 16 + max (pad_width impl) (length (str_int off)) \<and>
   (0 \<le> off \<and> off < 10 ^ pad_width impl \<longrightarrow>
      length (file_name impl off) = 16 + pad_width impl) \<and>
   (10 ^ pad_width impl \<le> off \<longrightarrow> 16 + pad_width impl < length (file_name impl off))"
proof (intro conjI impI)
  assume a: "extract_data impl api limit last_id w = (Inr (file_path, next_offset), w')"
  then show "file_path = file_name impl (resolved_offset last_id w)"
    by (simp add: extract_data_eq split: response.splits list.splits)
  from a show "files w' file_path = Some (case api limit (resolved_offset last_id w) of
                                   Results page \<Rightarrow> page | Failed \<Rightarrow> [])"
    by (auto simp add: extract_data_eq split: response.splits list.splits)
next
  show "\<exists>z. file_name impl off = ''pokedex_'' @ z @ ''.parquet'' \<and> parse_int z = off \<and>
        pad_width impl \<le> length z"
    by (rule exI [of _ "zfill (pad_width impl) (str_int off)"])
       (simp add: file_name_def parse_int_zfill length_zfill)
next
  assume "file_name impl1 off1 = file_name impl2 off2"
  then show "off1 = off2" by (rule file_name_inj)
next
  show "length (file_name impl off) = 16 + max (pad_width impl) (length (str_int off))"
    by (rule length_file_name)
next
  assume "0 \<le> off \<and> off < 10 ^ pad_width impl"
  then show "length (file_name impl off) = 16 + pad_width impl"
    by (simp add: length_file_name_small)
next
  assume "10 ^ pad_width impl \<le> off"
  then show "16 + pad_width impl < length (file_name impl off)"
    by (rule length_file_name_large)
qed

theorem file_name_properties_witness:
  "extract_data Lab example_api 30 None fresh =
     (Inr (''pokedex_000.parquet'', 30), snd (extract_data Lab example_api 30 None fresh)) \<and>
   files (snd (extract_data Lab example_api 30 None fresh)) ''pokedex_000.parquet'' =
     Some [bulbasaur, ivysaur] \<and>
   file_name Lab 30 \<noteq> file_name Lab 0 \<and>
   (0::int) \<le> 30 \<and> (30::int) < 10 ^ pad_width Lab \<and> length (file_name Lab 30) = 19 \<and>
   (10::int) ^ pad_width Lab \<le> 1000 \<and> 19 < length (file_name Lab 1000)"
proof -
  have r: "resolved_offset None fresh = 0"
    by (simp add: resolved_offset_def checkpoint_value_cases fresh_simps)
  have e: "extract_data Lab example_api 30 None fresh =
     (Inr (''pokedex_000.parquet'', 30), snd (extract_data Lab example_api 30 None fresh))"
    by (simp add: extract_data_eq r example_api_def file_name_examples del: extract_data.simps)
  from file_name_properties [of Lab example_api 30 None fresh "''pokedex_000.parquet''" 30
      "snd (extract_data Lab example_api 30 None fresh)"] e
  have c1: "files (snd (extract_data Lab example_api 30 None fresh)) ''pokedex_000.parquet'' =
      Some (case example_api 30 (resolved_offset None fresh) of
              Results page \<Rightarrow> page | Failed \<Rightarrow> [])"
    by blast
  from file_name_properties [where ?impl1.0 = Lab and ?off1.0 = 30 and ?impl2.0 = Lab and ?off2.0 = 0]
  have c2: "file_name Lab 30 \<noteq> file_name Lab 0" by auto
  have h3: "(0::int) \<le> 30 \<and> (30::int) < 10 ^ pad_width Lab" by simp
  from file_name_properties [where impl = Lab and off = 30] h3
  have c3: "length (file_name Lab 30) = 16 + pad_width Lab" by blast
  have h4: "(10::int) ^ pad_width Lab \<le> 1000" by simp
  from file_name_properties [where impl = Lab and off = 1000] h4
  have c4: "16 + pad_width Lab < length (file_name Lab 1000)" by blast
  from c1 have c1': "files (snd (extract_data Lab example_api 30 None fresh)) ''pokedex_000.parquet'' =
     Some [bulbasaur, ivysaur]"
    by (simp add: r example_api_def del: extract_data.simps)
  from e c1' c2 h3 h4 c3 c4 show ?thesis by simp
qed

text \<open>
  C8 as the specification words it fails in \<^verbatim>\<open>lab-m1w1.py\<close> from offset 1000 on: the name written
  for offset 1000 is one character longer than the name written for offset 0.
\<close>

theorem file_name_length_counterexample:
  "fst (extract_data Lab (\<lambda>limit off. Results [bulbasaur]) 10 (Some 0) fresh) =
     Inr (''pokedex_000.parquet'', 10) \<and>
   fst (extract_data Lab (\<lambda>limit off. Results [bulbasaur]) 10 (Some 1000) fresh) =
     Inr (''pokedex_1000.parquet'', 1010) \<and>
   length ''pokedex_000.parquet'' = 19 \<and> length ''pokedex_1000.parquet'' = 20"
  by (simp add: extract_data_eq resolved_offset_def file_name_examples del: extract_data.simps)

text \<open>
  C9 (amended). Given the same arguments, the same world and the same API, the
  \<^verbatim>\<open>extract_data\<close> of the two files send the same request, fail alike or return the same
  next offset, leave the three tables in the same state and write the same rows, each to
  its own file name (width 3 against width 10); the two \<^verbatim>\<open>load_data\<close> are the same function
  of their arguments and the world; the two \<^verbatim>\<open>transform_data\<close> fail alike and leave the same
  world. They differ in one more respect than the specification lists: \<^verbatim>\<open>transform_data\<close> returns
  \<^verbatim>\<open>None\<close> in \<^verbatim>\<open>lab-m1w1.py\<close> and the table's name in \<^verbatim>\<open>solutions.py\<close>. (The preview queries
  and all printing are outside the model; the drivers differ in their limit only, see
  \<open>main_eq\<close>.)
\<close>

theorem implementations_agree:
  "map_sum id snd (fst (lab_extract_data api limit last_id w)) =
     map_sum id snd (fst (sol_extract_data api limit last_id w)) \<and>
   metadata (snd (lab_extract_data api limit last_id w)) =
     metadata (snd (sol_extract_data api limit last_id w)) \<and>
   pokedex (snd (lab_extract_data api limit last_id w)) =
     pokedex (snd (sol_extract_data api limit last_id w)) \<and>
   pokemon_stats (snd (lab_extract_data api limit last_id w)) =
     pokemon_stats (snd (sol_extract_data api limit last_id w)) \<and>
   requests (snd (lab_extract_data api limit last_id w)) =
     requests (snd (sol_extract_data api limit last_id w)) \<and>
   (lab_extract_data api limit last_id w = (Inr (lab_path, n), lab_w) \<and>
    sol_extract_data api limit last_id w = (Inr (sol_path, m), sol_w) \<longrightarrow>
      n = m \<and> files lab_w lab_path = files sol_w sol_path \<and>
      files lab_w lab_path = Some (case api limit (resolved_offset last_id w) of
                                     Results page \<Rightarrow> page | Failed \<Rightarrow> []) \<and>
      lab_path = ''pokedex_'' @ zfill 3 (str_int (resolved_offset last_id w)) @ ''.parquet'' \<and>
      sol_path = ''pokedex_'' @ zfill 10 (str_int (resolved_offset last_id w)) @ ''.parquet'') \<and>
   lab_load_data f b w = sol_load_data f b w \<and>
   snd (lab_transform_data w) = snd (sol_transform_data w) \<and>
   map_sum id (\<lambda>r. ()) (fst (lab_transform_data w)) =
     map_sum id (\<lambda>r. ()) (fst (sol_transform_data w)) \<and>
   (pokedex w \<noteq> None \<longrightarrow>
      fst (lab_transform_data w) = Inr None \<and>
      fst (sol_transform_data w) = Inr (Some ''pokemon_stats''))"
proof (intro conjI impI)
  show "map_sum id snd (fst (lab_extract_data api limit last_id w)) =
     map_sum id snd (fst (sol_extract_data api limit last_id w))"
    unfolding lab_extract_data_eq sol_extract_data_eq
    by (simp add: extract_data_eq del: extract_data.simps split: response.splits list.splits)
  show "metadata (snd (lab_extract_data api limit last_id w)) =
     metadata (snd (sol_extract_data api limit last_id w))"
    unfolding lab_extract_data_eq sol_extract_data_eq
    by (simp add: extract_data_eq del: extract_data.simps split: response.splits list.splits)
  show "pokedex (snd (lab_extract_data api limit last_id w)) =
     pokedex (snd (sol_extract_data api limit last_id w))"
    unfolding lab_extract_data_eq sol_extract_data_eq
    by (simp add: extract_data_eq del: extract_data.simps split: response.splits list.splits)
  show "pokemon_stats (snd (lab_extract_data api limit last_id w)) =
     pokemon_stats (snd (sol_extract_data api limit last_id w))"
    unfolding lab_extract_data_eq sol_extract_data_eq
    by (simp add: extract_data_eq del: extract_data.simps split: response.splits list.splits)
  show "requests (snd (lab_extract_data api limit last_id w)) =
     requests (snd (sol_extract_data api limit last_id w))"
    unfolding lab_extract_data_eq sol_extract_data_eq
    by (simp add: extract_data_eq del: extract_data.simps split: response.splits list.splits)
next
  assume a: "lab_extract_data api limit last_id w = (Inr (lab_path, n), lab_w) \<and>
    sol_extract_data api limit last_id w = (Inr (sol_path, m), sol_w)"
  then have l: "extract_data Lab api limit last_id w = (Inr (lab_path, n), lab_w)"
    and s: "extract_data Solutions api limit last_id w = (Inr (sol_path, m), sol_w)"
    by simp_all
  from extract_data_success [OF l] obtain page where
    pl: "api limit (resolved_offset last_id w) = Results page"
      "lab_path = file_name Lab (resolved_offset last_id w)"
      "n = resolved_offset last_id w + limit" "files lab_w = (files w)(lab_path \<mapsto> page)"
    by blast
  from extract_data_success [OF s] pl(1) have
    ps: "sol_path = file_name Solutions (resolved_offset last_id w)"
      "m = resolved_offset last_id w + limit" "files sol_w = (files w)(sol_path \<mapsto> page)"
    by auto
  from pl ps show "n = m" by simp
  from pl ps show "files lab_w lab_path = files sol_w sol_path" by simp
  from pl show "files lab_w lab_path = Some (case api limit (resolved_offset last_id w) of
                                     Results page \<Rightarrow> page | Failed \<Rightarrow> [])" by simp
  from pl show "lab_path = ''pokedex_'' @ zfill 3 (str_int (resolved_offset last_id w))
      @ ''.parquet''" by (simp add: file_name_def)
  from ps show "sol_path = ''pokedex_'' @ zfill 10 (str_int (resolved_offset last_id w))
      @ ''.parquet''" by (simp add: file_name_def)
next
  show "lab_load_data f b w = sol_load_data f b w" by (simp add: load_data_same)
  show "snd (lab_transform_data w) = snd (sol_transform_data w)"
    unfolding lab_transform_data_eq sol_transform_data_eq
    by (simp add: transform_data_eq del: transform_data.simps split: option.splits)
  show "map_sum id (\<lambda>r. ()) (fst (lab_transform_data w)) =
     map_sum id (\<lambda>r. ()) (fst (sol_transform_data w))"
    unfolding lab_transform_data_eq sol_transform_data_eq
    by (simp add: transform_data_eq del: transform_data.simps split: option.splits)
next
  assume "pokedex w \<noteq> None"
  then obtain rows where r: "pokedex w = Some rows" by blast
  show "fst (lab_transform_data w) = Inr None"
    unfolding lab_transform_data_eq using r
    by (simp add: transform_data_eq del: transform_data.simps)
  show "fst (sol_transform_data w) = Inr (Some ''pokemon_stats'')"
    unfolding sol_transform_data_eq using r
    by (simp add: transform_data_eq del: transform_data.simps)
qed

theorem implementations_agree_witness:
  "lab_extract_data example_api 10 None fresh =
     (Inr (''pokedex_000.parquet'', 10), snd (lab_extract_data example_api 10 None fresh)) \<and>
   sol_extract_data example_api 10 None fresh =
     (Inr (''pokedex_0000000000.parquet'', 10), snd (sol_extract_data example_api 10 None fresh)) \<and>
   files (snd (lab_extract_data example_api 10 None fresh)) ''pokedex_000.parquet'' =
     files (snd (sol_extract_data example_api 10 None fresh)) ''pokedex_0000000000.parquet'' \<and>
   files (snd (lab_extract_data example_api 10 None fresh)) ''pokedex_000.parquet'' =
     Some [bulbasaur, ivysaur] \<and>
   lab_load_data ''a.parquet'' 10 two_files = sol_load_data ''a.parquet'' 10 two_files \<and>
   pokedex loaded_twice \<noteq> None \<and>
   snd (lab_transform_data loaded_twice) = snd (sol_transform_data loaded_twice) \<and>
   fst (lab_transform_data loaded_twice) = Inr None \<and>
   fst (sol_transform_data loaded_twice) = Inr (Some ''pokemon_stats'')"
proof -
  have r: "resolved_offset None fresh = 0"
    by (simp add: resolved_offset_def checkpoint_value_cases fresh_simps)
  have hl: "lab_extract_data example_api 10 None fresh =
     (Inr (''pokedex_000.parquet'', 10), snd (lab_extract_data example_api 10 None fresh))"
    unfolding lab_extract_data_eq
    by (simp add: extract_data_eq r example_api_def file_name_examples del: extract_data.simps)
  have hs: "sol_extract_data example_api 10 None fresh =
     (Inr (''pokedex_0000000000.parquet'', 10), snd (sol_extract_data example_api 10 None fresh))"
    unfolding sol_extract_data_eq
    by (simp add: extract_data_eq r example_api_def file_name_examples del: extract_data.simps)
  have hp: "pokedex loaded_twice \<noteq> None" by (simp add: loaded_twice_eq)
  note t1 = implementations_agree [of example_api 10 None fresh "''pokedex_000.parquet''" 10
      "snd (lab_extract_data example_api 10 None fresh)" "''pokedex_0000000000.parquet''" 10
      "snd (sol_extract_data example_api 10 None fresh)" "''a.parquet''" 10]
  note t2 = implementations_agree [of example_api 10 None loaded_twice _ _ _ _ _ _
      "''a.parquet''" 10]
  from t1 hl hs have c1:
    "files (snd (lab_extract_data example_api 10 None fresh)) ''pokedex_000.parquet'' =
     files (snd (sol_extract_data example_api 10 None fresh)) ''pokedex_0000000000.parquet''"
    and c2: "files (snd (lab_extract_data example_api 10 None fresh)) ''pokedex_000.parquet'' =
     Some (case example_api 10 (resolved_offset None fresh) of
             Results page \<Rightarrow> page | Failed \<Rightarrow> [])"
    by blast+
  have c3: "lab_load_data ''a.parquet'' 10 two_files = sol_load_data ''a.parquet'' 10 two_files"
    using implementations_agree [of _ _ _ two_files _ _ _ _ _ _ "''a.parquet''" 10] by blast
  from t2 hp have c4: "snd (lab_transform_data loaded_twice) = snd (sol_transform_data loaded_twice)"
    and c5: "fst (lab_transform_data loaded_twice) = Inr None"
    and c6: "fst (sol_transform_data loaded_twice) = Inr (Some ''pokemon_stats'')"
    by blast+
  from c2 have c2': "files (snd (lab_extract_data example_api 10 None fresh))
      ''pokedex_000.parquet'' = Some [bulbasaur, ivysaur]"
    by (simp add: r example_api_def)
  from hl hs c1 c2' c3 hp c4 c5 c6 show ?thesis by blast
qed

text \<open>
  C9 as the specification words it names three differences and no other. On a database whose
  \<^verbatim>\<open>pokedex\<close> is empty the two \<^verbatim>\<open>transform_data\<close> return different values.
\<close>

theorem transform_data_result_counterexample:
  "fst (lab_transform_data (fresh\<lparr>pokedex := Some []\<rparr>)) = Inr None \<and>
   fst (sol_transform_data (fresh\<lparr>pokedex := Some []\<rparr>)) = Inr (Some ''pokemon_stats'') \<and>
   fst (lab_transform_data (fresh\<lparr>pokedex := Some []\<rparr>)) \<noteq>
     fst (sol_transform_data (fresh\<lparr>pokedex := Some []\<rparr>))"
  by (simp add: lab_transform_data_def sol_transform_data_def replace_pokemon_stats_def)

text \<open>
  C10. When the table \<^verbatim>\<open>pokedex\<close> exists and has no row, \<^verbatim>\<open>transform_data\<close> of either file
  succeeds and leaves \<^verbatim>\<open>pokemon_stats\<close> with exactly one row: the count is 0 and the least
  and greatest id are NULL. Nothing else of the database changes.
\<close>

theorem transform_data_empty_table:
  assumes "pokedex w = Some []"
  shows "(\<exists>r. fst (transform_data impl w) = Inr r) \<and>
         snd (transform_data impl w) =
           w\<lparr>pokemon_stats :=
                Some [\<lparr>total_pokemon = 0, first_id = None, stats_last_id = None\<rparr>]\<rparr>"
  using assms by (simp add: transform_data_eq)

theorem transform_data_empty_table_witness:
  "pokedex (fresh\<lparr>pokedex := Some []\<rparr>) = Some [] \<and>
   (\<exists>r. fst (transform_data Lab (fresh\<lparr>pokedex := Some []\<rparr>)) = Inr r) \<and>
   snd (transform_data Lab (fresh\<lparr>pokedex := Some []\<rparr>)) =
     fresh\<lparr>pokedex := Some [],
           pokemon_stats := Some [\<lparr>total_pokemon = 0, first_id = None, stats_last_id = None\<rparr>]\<rparr>"
  using transform_data_empty_table [of "fresh\<lparr>pokedex := Some []\<rparr>" Lab] by simp

section \<open>Further properties\<close>

text \<open>
  Whenever \<^verbatim>\<open>extract_data(limit, last_id)\<close> returns, the second component of its result
  is the resolved offset plus \<open>limit\<close>, and it does return whenever the API answers with a
  list that is not empty. The resolved offset is the one the request is sent with: the
  caller's \<^verbatim>\<open>last_id\<close> when it is given, and otherwise the checkpoint, which is 0 when no
  row has been written, the row's value when there is one row, and in general the
  greatest value that is not NULL.
\<close>

theorem extract_data_next_offset:
  "(extract_data impl api limit last_id w = (Inr (file_path, next_offset), w') \<longrightarrow>
      next_offset = resolved_offset last_id w + limit) \<and>
   (api limit (resolved_offset last_id w) = Results (r # rs) \<longrightarrow>
      fst (extract_data impl api limit last_id w) =
        Inr (file_name impl (resolved_offset last_id w), resolved_offset last_id w + limit)) \<and>
   requests (snd (extract_data impl api limit last_id w)) =
     requests w @ [(limit, resolved_offset last_id w)] \<and>
   resolved_offset (Some off) w = off \<and>
   (metadata_rows w = [] \<longrightarrow> resolved_offset None w = 0) \<and>
   (metadata w = Some [Some c] \<longrightarrow> resolved_offset None w = c) \<and>
   (present (metadata_rows w) \<noteq> [] \<longrightarrow>
      resolved_offset None w = Max (set (present (metadata_rows w))))"
proof (intro conjI impI)
  assume "extract_data impl api limit last_id w = (Inr (file_path, next_offset), w')"
  then show "next_offset = resolved_offset last_id w + limit"
    by (simp add: extract_data_eq split: response.splits list.splits)
next
  assume "api limit (resolved_offset last_id w) = Results (r # rs)"
  then show "fst (extract_data impl api limit last_id w) =
        Inr (file_name impl (resolved_offset last_id w), resolved_offset last_id w + limit)"
    by (simp add: extract_data_eq)
next
  show "requests (snd (extract_data impl api limit last_id w)) =
     requests w @ [(limit, resolved_offset last_id w)]"
    by (simp add: extract_data_eq split: response.splits list.splits)
next
  show "resolved_offset (Some off) w = off" by (simp add: resolved_offset_def)
next
  assume "metadata_rows w = []"
  then show "resolved_offset None w = 0"
    by (simp add: resolved_offset_def checkpoint_value_cases)
next
  assume "metadata w = Some [Some c]"
  then show "resolved_offset None w = c"
    by (simp add: resolved_offset_def checkpoint_value_cases)
next
  assume "present (metadata_rows w) \<noteq> []"
  then show "resolved_offset None w = Max (set (present (metadata_rows w)))"
    by (simp add: resolved_offset_def checkpoint_value_cases)
qed

theorem extract_data_next_offset_witness:
  "metadata_rows fresh = [] \<and>
   example_api 30 0 = Results [bulbasaur, ivysaur] \<and>
   fst (extract_data Lab example_api 30 None fresh) = Inr (''pokedex_000.parquet'', 30) \<and>
   requests (snd (extract_data Lab example_api 30 None fresh)) = [(30, 0)] \<and>
   example_api 10 10 = Results [metapod] \<and>
   fst (extract_data Solutions example_api 10 (Some 10) loaded_twice) =
     Inr (''pokedex_0000000010.parquet'', 20) \<and>
   metadata loaded_twice = Some [Some 20] \<and>
   requests (snd (extract_data Lab example_api 30 None loaded_twice)) = [(30, 20)]"
proof -
  have h1: "metadata_rows fresh = []" by (simp add: fresh_simps)
  have h2: "example_api 30 0 = Results [bulbasaur, ivysaur]" by (simp add: example_api_def)
  have h3: "example_api 10 10 = Results [metapod]" by (simp add: example_api_def)
  have h4: "metadata loaded_twice = Some [Some 20]" by (simp add: loaded_twice_eq)
  note t1 = extract_data_next_offset [of Lab example_api 30 None fresh _ _ _ bulbasaur "[ivysaur]"]
  from t1 h1 have r1: "resolved_offset None fresh = 0" by blast
  from t1 h2 r1 have c1: "fst (extract_data Lab example_api 30 None fresh) =
      Inr (file_name Lab 0, 0 + 30)" by simp
  from t1 r1 have c2: "requests (snd (extract_data Lab example_api 30 None fresh)) =
      requests fresh @ [(30, 0)]" by simp
  note t2 = extract_data_next_offset [of Solutions example_api 10 "Some 10" loaded_twice _ _ _
      metapod "[]" 10]
  from t2 have r2: "resolved_offset (Some 10) loaded_twice = 10" by blast
  from t2 h3 r2 have c3: "fst (extract_data Solutions example_api 10 (Some 10) loaded_twice) =
      Inr (file_name Solutions 10, 10 + 10)" by simp
  note t3 = extract_data_next_offset [of Lab example_api 30 None loaded_twice _ _ _ _ _ _ 20]
  from t3 h4 have r3: "resolved_offset None loaded_twice = 20" by blast
  from t3 r3 have c4: "requests (snd (extract_data Lab example_api 30 None loaded_twice)) =
      requests loaded_twice @ [(30, 20)]" by simp
  have rq: "requests loaded_twice = []" by (simp add: loaded_twice_eq two_files_simps)
  from h1 h2 h3 h4 c1 c2 c3 c4 rq show ?thesis
    by (simp add: file_name_examples fresh_simps)
qed

text \<open>
  \<^verbatim>\<open>pokedex\<close> is append-only under \<^verbatim>\<open>load_data\<close>: however the call ends, the table exists
  afterwards and holds the rows it had before, in the same order, followed by rows the
  call added (none when it fails before or in the \<^verbatim>\<open>INSERT\<close>).
\<close>

theorem load_data_append_only:
  "\<exists>new. pokedex (snd (load_data impl f b w)) = Some (pokedex_rows w @ new)"
proof -
  have "\<exists>new. pokedex (snd (lab_load_data f b w)) = Some (pokedex_rows w @ new)"
    by (cases "bindable b")
       (simp_all add: lab_load_data_eq lab_load_data_unbound Let_def pokedex_create_pokedex
         split: option.splits)
  then show ?thesis by (simp add: load_data_lab)
qed

theorem load_data_append_only_witness:
  "pokedex two_files = None \<and>
   (\<exists>new. pokedex (snd (load_data Lab ''missing.parquet'' 10 two_files)) = Some ([] @ new)) \<and>
   pokedex_rows loaded_once = [loaded_row 10 bulbasaur] \<and>
   (\<exists>new. pokedex (snd (load_data Solutions ''b.parquet'' 20 loaded_once)) =
            Some ([loaded_row 10 bulbasaur] @ new))"
proof -
  have r0: "pokedex_rows two_files = []" by (simp add: two_files_simps)
  have r1: "pokedex_rows loaded_once = [loaded_row 10 bulbasaur]"
    by (simp add: loaded_once_eq pokedex_rows_def)
  from load_data_append_only [of Lab "''missing.parquet''" 10 two_files] r0
  have c0: "\<exists>new. pokedex (snd (load_data Lab ''missing.parquet'' 10 two_files)) =
      Some ([] @ new)" by simp
  from load_data_append_only [of Solutions "''b.parquet''" 20 loaded_once] r1
  have c1: "\<exists>new. pokedex (snd (load_data Solutions ''b.parquet'' 20 loaded_once)) =
            Some ([loaded_row 10 bulbasaur] @ new)" by simp
  from c0 c1 r1 show ?thesis by (simp add: two_files_simps)
qed

text \<open>
  No deduplication: when the same file is loaded twice with success, its rows stand
  in \<^verbatim>\<open>pokedex\<close> twice.
\<close>

theorem load_data_twice_duplicates:
  "load_data impl f b w = (Inr u1, w1) \<and> load_data impl f b w1 = (Inr u2, w2) \<and>
   files w f = Some rs \<longrightarrow>
     pokedex w2 = Some (pokedex_rows w @ map (loaded_row b) rs @ map (loaded_row b) rs)"
proof
  assume a: "load_data impl f b w = (Inr u1, w1) \<and> load_data impl f b w1 = (Inr u2, w2) \<and>
   files w f = Some rs"
  then have l1: "lab_load_data f b w = (Inr u1, w1)" and l2: "lab_load_data f b w1 = (Inr u2, w2)"
    by (simp_all add: load_data_lab)
  from lab_load_data_success [OF l1] a
  have p1: "pokedex w1 = Some (pokedex_rows w @ map (loaded_row b) rs)" and f1: "files w1 = files w"
    by auto
  from p1 have r1: "pokedex_rows w1 = pokedex_rows w @ map (loaded_row b) rs"
    by (simp add: pokedex_rows_def)
  from lab_load_data_success [OF l2] f1 a r1
  show "pokedex w2 = Some (pokedex_rows w @ map (loaded_row b) rs @ map (loaded_row b) rs)"
    by auto
qed

theorem load_data_twice_duplicates_witness:
  "load_data Lab ''a.parquet'' 10 two_files = (Inr (), loaded_once) \<and>
   fst (load_data Lab ''a.parquet'' 10 loaded_once) = Inr () \<and>
   files two_files ''a.parquet'' = Some [bulbasaur] \<and>
   pokedex (snd (load_data Lab ''a.parquet'' 10 loaded_once)) =
     Some [loaded_row 10 bulbasaur, loaded_row 10 bulbasaur]"
proof -
  have h0: "load_data Lab ''a.parquet'' 10 two_files = (Inr (), loaded_once)"
    using load_once by (simp only: load_data.simps loaded_once_eq [symmetric])
  have h1: "fst (load_data Lab ''a.parquet'' 10 loaded_once) = Inr ()"
    by (simp add: lab_load_data_returns [of _ _ "[bulbasaur]" _ "[Some 10]"] loaded_once_eq
        two_files_simps in_integer_def locator_ok_examples)
  then have h1': "load_data Lab ''a.parquet'' 10 loaded_once =
      (Inr (), snd (load_data Lab ''a.parquet'' 10 loaded_once))"
    by (metis prod.collapse)
  have h2: "files two_files ''a.parquet'' = Some [bulbasaur]" by (simp add: two_files_simps)
  from load_data_twice_duplicates [of Lab "''a.parquet''" 10 two_files "()" loaded_once "()"
      "snd (load_data Lab ''a.parquet'' 10 loaded_once)" "[bulbasaur]"] h0 h1' h2
  have "pokedex (snd (load_data Lab ''a.parquet'' 10 loaded_once)) =
      Some (pokedex_rows two_files @ map (loaded_row 10) [bulbasaur]
            @ map (loaded_row 10) [bulbasaur])" by blast
  then have c: "pokedex (snd (load_data Lab ''a.parquet'' 10 loaded_once)) =
     Some [loaded_row 10 bulbasaur, loaded_row 10 bulbasaur]"
    by (simp add: two_files_simps del: load_data.simps)
  from h0 h1 h2 c show ?thesis by blast
qed

text \<open>
  The model of \<^verbatim>\<open>regexp_extract(url, '/pokemon/(\d+)/', 1)\<close> returns text that is not
  empty exactly when the locator reads \<open>pre @ ''/pokemon/'' @ ds @ ''/'' @ post\<close> for some run
  of digits \<open>ds\<close>; what it returns is always a run of digits, and writing a natural number
  with \<^verbatim>\<open>str\<close> and reading the digits back gives the number.
\<close>

theorem regexp_extract_meets_pattern:
  "(regexp_extract s \<noteq> []) = matches s \<and> list_all is_digit (regexp_extract s) \<and>
   nat_of_digits (str_nat n) = n"
  by (simp add: matches_iff regexp_extract_digits nat_of_digits_str_nat)

theorem regexp_extract_meets_pattern_witness:
  "regexp_extract ''https://pokeapi.co/api/v2/pokemon/31/'' = ''31'' \<and>
   matches ''https://pokeapi.co/api/v2/pokemon/31/'' \<and>
   regexp_extract ''https://pokeapi.co/api/v2/pokemon/'' = [] \<and>
   \<not> matches ''https://pokeapi.co/api/v2/pokemon/''"
proof -
  have a: "regexp_extract ''https://pokeapi.co/api/v2/pokemon/31/'' = ''31''"
    by (rule regexp_extract_more)
  have b: "regexp_extract ''https://pokeapi.co/api/v2/pokemon/'' = []"
    by (rule regexp_extract_bad)
  from regexp_extract_meets_pattern [of "''https://pokeapi.co/api/v2/pokemon/31/''"] a
  have c: "matches ''https://pokeapi.co/api/v2/pokemon/31/''"
    by (simp del: regexp_extract.simps)
  from regexp_extract_meets_pattern [of "''https://pokeapi.co/api/v2/pokemon/''"] b
  have d: "\<not> matches ''https://pokeapi.co/api/v2/pokemon/''"
    by (simp del: regexp_extract.simps)
  from a b c d show ?thesis by blast
qed

text \<open>
  When the request fails, \<^verbatim>\<open>extract_data\<close> re-raises the request exception: no file is
  written, and the tables hold what they held (the checkpoint table now exists).
\<close>

theorem extract_data_failed_request:
  "api limit (resolved_offset last_id w) = Failed \<longrightarrow>
     fst (extract_data impl api limit last_id w) = Inl RequestException \<and>
     files (snd (extract_data impl api limit last_id w)) = files w \<and>
     metadata_rows (snd (extract_data impl api limit last_id w)) = metadata_rows w \<and>
     pokedex (snd (extract_data impl api limit last_id w)) = pokedex w"
  by (simp add: extract_data_eq create_metadata_simps metadata_rows_def)

theorem extract_data_failed_request_witness:
  "example_api 10 (resolved_offset (Some 7) fresh) = Failed \<and>
   fst (extract_data Lab example_api 10 (Some 7) fresh) = Inl RequestException \<and>
   files (snd (extract_data Lab example_api 10 (Some 7) fresh)) = files fresh"
proof -
  have h: "example_api 10 (resolved_offset (Some 7) fresh) = Failed"
    by (simp add: example_api_def resolved_offset_def)
  from extract_data_failed_request [of example_api 10 "Some 7" fresh Lab] h
  show ?thesis by blast
qed

text \<open>
  A run of the driver that completes on a database whose checkpoint table is empty,
  missing, or has a row that is not NULL leaves the checkpoint at the start value plus
  twice the limit, and a summary that counts the old rows and both pages.
\<close>

theorem main_end_state:
  "main impl api w = (Inr u, w') \<and>
   (metadata_rows w = [] \<or> present (metadata_rows w) \<noteq> []) \<longrightarrow>
     checkpoint_value w' = checkpoint_value w + 2 * driver_limit impl \<and>
     (\<exists>page1 page2 s.
        api (driver_limit impl) (checkpoint_value w) = Results page1 \<and>
        api (driver_limit impl) (checkpoint_value w + driver_limit impl) = Results page2 \<and>
        pokemon_stats w' = Some [s] \<and>
        total_pokemon s =
          int (length (pokedex_rows w)) + int (length page1) + int (length page2))"
proof
  let ?L = "driver_limit impl" and ?c = "checkpoint_value w"
  assume a: "main impl api w = (Inr u, w') \<and>
   (metadata_rows w = [] \<or> present (metadata_rows w) \<noteq> [])"
  then have m: "main impl api w = (Inr u, w')" by simp
  from main_run [OF m] obtain page1 page2 where
    pg: "api ?L ?c = Results page1" "api ?L (?c + ?L) = Results page2" and
    md: "metadata w' = Some (overwritten (?c + 2 * ?L) (overwritten (?c + ?L) (metadata_rows w)))"
    and st: "\<exists>s. pokemon_stats w' = Some [s] \<and>
           total_pokemon s =
             int (length (pokedex_rows w)) + int (length page1) + int (length page2)"
    by blast
  from a have "sql_max (overwritten (?c + ?L) (metadata_rows w)) = Some (?c + ?L)"
    by (auto simp add: sql_max_overwritten)
  then have "present (overwritten (?c + ?L) (metadata_rows w)) \<noteq> []"
    by (simp add: sql_max_Max split: if_splits)
  then have "sql_max (overwritten (?c + 2 * ?L) (overwritten (?c + ?L) (metadata_rows w)))
      = Some (?c + 2 * ?L)"
    by (simp add: sql_max_overwritten)
  with md have cv: "checkpoint_value w' = ?c + 2 * ?L"
    by (simp add: checkpoint_value_def metadata_rows_def)
  from pg st cv show "checkpoint_value w' = ?c + 2 * ?L \<and>
     (\<exists>page1 page2 s.
        api ?L ?c = Results page1 \<and> api ?L (?c + ?L) = Results page2 \<and>
        pokemon_stats w' = Some [s] \<and>
        total_pokemon s =
          int (length (pokedex_rows w)) + int (length page1) + int (length page2))"
    by blast
qed

theorem main_end_state_witness:
  "main Solutions example_api fresh = (Inr (), snd (main Solutions example_api fresh)) \<and>
   metadata_rows fresh = [] \<and> checkpoint_value fresh = 0 \<and>
   checkpoint_value (snd (main Solutions example_api fresh)) = 20 \<and>
   (\<exists>s. pokemon_stats (snd (main Solutions example_api fresh)) = Some [s] \<and>
        total_pokemon s = 3)"
proof -
  have c: "checkpoint_value fresh = 0" by (simp add: checkpoint_value_cases fresh_simps)
  have r: "metadata_rows fresh = []" by (simp add: fresh_simps)
  have h: "main Solutions example_api fresh = (Inr (), snd (main Solutions example_api fresh))"
    by (simp add: main_sol_example del: main.simps)
  from main_end_state [of Solutions example_api fresh "()" "snd (main Solutions example_api fresh)"]
    h r
  obtain page1 page2 s where
    cv: "checkpoint_value (snd (main Solutions example_api fresh)) =
           checkpoint_value fresh + 2 * driver_limit Solutions" and
    a1: "example_api (driver_limit Solutions) (checkpoint_value fresh) = Results page1" and
    a2: "example_api (driver_limit Solutions) (checkpoint_value fresh + driver_limit Solutions) =
           Results page2" and
    st: "pokemon_stats (snd (main Solutions example_api fresh)) = Some [s]"
      "total_pokemon s =
          int (length (pokedex_rows fresh)) + int (length page1) + int (length page2)"
    by blast
  from a1 c have p1: "page1 = [bulbasaur, ivysaur]" by (simp add: example_api_def)
  from a2 c have p2: "page2 = [metapod]" by (simp add: example_api_def)
  from st p1 p2 have "total_pokemon s = 3" by (simp add: fresh_simps)
  with st have e: "\<exists>s. pokemon_stats (snd (main Solutions example_api fresh)) = Some [s] \<and>
        total_pokemon s = 3" by blast
  from cv c have cv': "checkpoint_value (snd (main Solutions example_api fresh)) = 20" by simp
  from h r c cv' e show ?thesis by blast
qed

end
